theory Spec2Isabelle
  imports
    Complex_Main
    "HOL-Library.Multiset"
    "HOL-Library.Sublist"
    "HOL-Library.Char_ord"
    "HOL-Library.List_Lexorder"
    "HOL-Library.Product_Lexorder"
begin

section \<open>Python values the agent works with\<close>

text \<open>
  The agent of \<^verbatim>\<open>main.py\<close> is one class, \<^verbatim>\<open>CompetitorAgent\<close>. Its methods are
  embedded below as HOL functions of the same names. Everything a method takes from
  outside the program (the clock, the marker file, the web, the classifier service) is
  an explicit argument; every \<^verbatim>\<open>raise\<close> is the left injection of a sum. The log
  lines and the pause of two seconds between sites change no value and are left out.
  A text is a list of characters, each a code point below 256.
\<close>

datatype exn =
  ValueError | TypeError | KeyError | OSError | RequestException

text \<open>
  A \<^verbatim>\<open>datetime\<close> is a point of the proleptic Gregorian calendar, counted in
  microseconds from 0001-01-01T00:00:00, and an optional UTC offset (in microseconds).
  \<^verbatim>\<open>datetime.now()\<close> has no offset (it is naive); \<^verbatim>\<open>fromisoformat\<close> of a text that
  ends in \<^verbatim>\<open>+00:00\<close> has one (it is aware). Python orders two naive values by their
  fields, two aware values by their UTC instants, and raises \<^verbatim>\<open>TypeError\<close> when asked
  to order a naive value against an aware one.
\<close>

record pydatetime =
  instant :: int
  utcoffset :: "int option"

definition naive :: "int \<Rightarrow> pydatetime" where
  "naive t = \<lparr>instant = t, utcoffset = None\<rparr>"

definition days :: "int \<Rightarrow> int" where
  "days n = n * 86400000000"

definition dt_less :: "pydatetime \<Rightarrow> pydatetime \<Rightarrow> exn + bool" where
  "dt_less a b =
     (case utcoffset a of
        None \<Rightarrow> (case utcoffset b of
                   None \<Rightarrow> Inr (instant a < instant b)
                 | Some ob \<Rightarrow> Inl TypeError)
      | Some oa \<Rightarrow> (case utcoffset b of
                      None \<Rightarrow> Inl TypeError
                    | Some ob \<Rightarrow> Inr (instant a - oa < instant b - ob)))"

definition dt_ge :: "pydatetime \<Rightarrow> pydatetime \<Rightarrow> exn + bool" where
  "dt_ge a b =
     (case utcoffset a of
        None \<Rightarrow> (case utcoffset b of
                   None \<Rightarrow> Inr (instant b \<le> instant a)
                 | Some ob \<Rightarrow> Inl TypeError)
      | Some oa \<Rightarrow> (case utcoffset b of
                      None \<Rightarrow> Inl TypeError
                    | Some ob \<Rightarrow> Inr (instant b - ob \<le> instant a - oa)))"

text \<open>
  \<^verbatim>\<open>str.strip()\<close> and \<^verbatim>\<open>str.replace('Z', '+00:00')\<close>. The white space of
  \<^verbatim>\<open>strip\<close> is that of \<^verbatim>\<open>str.isspace\<close> below 256: the code points 9 to 13, 28 to
  32, 133 and 160.
\<close>

definition is_space :: "char \<Rightarrow> bool" where
  "is_space c =
     (let n = (of_char c :: nat)
      in (9 \<le> n \<and> n \<le> 13) \<or> (28 \<le> n \<and> n \<le> 32) \<or> n = 133 \<or> n = 160)"

definition strip :: "string \<Rightarrow> string" where
  "strip s = rev (dropWhile is_space (rev (dropWhile is_space s)))"

definition replace_Z :: "string \<Rightarrow> string" where
  "replace_Z s = concat (map (\<lambda>c. if c = CHR ''Z'' then ''+00:00'' else [c]) s)"

text \<open>
  The two functions of the \<^verbatim>\<open>datetime\<close> library the agent calls on texts are taken
  as they are, as arguments: \<^verbatim>\<open>fromisoformat\<close> (\<open>None\<close> where it raises
  \<^verbatim>\<open>ValueError\<close>) and \<^verbatim>\<open>isoformat\<close>.
\<close>

record pylib =
  fromisoformat :: "string \<Rightarrow> pydatetime option"
  isoformat :: "pydatetime \<Rightarrow> string"

section \<open>The run window: \<^verbatim>\<open>get_last_run_timestamp\<close>\<close>

text \<open>
  The marker file \<^verbatim>\<open>last_run_timestamp.txt\<close> as the method meets it: absent
  (\<^verbatim>\<open>os.path.exists\<close> is false), present but \<^verbatim>\<open>open\<close> or \<^verbatim>\<open>read\<close> raises, or
  present with a content.
\<close>

datatype marker_file = Missing | Unreadable | Content string

text \<open>
  The body of the \<^verbatim>\<open>try\<close> of \<^verbatim>\<open>get_last_run_timestamp\<close>. \<open>now0\<close> is the clock as
  line 60 reads it, \<open>now1\<close> the clock as the 7-day default reads it (line 75 or
  line 82: one call runs only one of the two).
\<close>

definition read_marker :: "pylib \<Rightarrow> int \<Rightarrow> int \<Rightarrow> marker_file \<Rightarrow> exn + pydatetime" where
  "read_marker L now0 now1 f =
     (let max_lookback = naive (now0 - days 30) in
      case f of
        Missing \<Rightarrow> Inr (naive (now1 - days 7))
      | Unreadable \<Rightarrow> Inl OSError
      | Content s \<Rightarrow>
          (case fromisoformat L (strip s) of
             None \<Rightarrow> Inl ValueError
           | Some last_run \<Rightarrow>
               (case dt_less last_run max_lookback of
                  Inl e \<Rightarrow> Inl e
                | Inr older \<Rightarrow> if older then Inr max_lookback else Inr last_run)))"

text \<open>
  The method itself: \<^verbatim>\<open>except Exception\<close> turns every failure of the body into the
  7-day default. The result is a sum so that "does not raise" is a statement.
\<close>

definition get_last_run_timestamp :: "pylib \<Rightarrow> int \<Rightarrow> int \<Rightarrow> marker_file \<Rightarrow> exn + pydatetime" where
  "get_last_run_timestamp L now0 now1 f =
     (case read_marker L now0 now1 f of
        Inr d \<Rightarrow> Inr d
      | Inl e \<Rightarrow> Inr (naive (now1 - days 7)))"

text \<open>Fixtures: the library's values on the texts the examples below use.\<close>

definition lib0 :: pylib where
  "lib0 = \<lparr>fromisoformat = (\<lambda>s.
       if s = ''2020-01-01T00:00:00'' then Some (naive 63713433600000000)
       else if s = ''2020-01-01T00:00:00+00:00''
         then Some \<lparr>instant = 63713433600000000, utcoffset = Some 0\<rparr>
       else if s = ''2026-10-28T12:00:00'' then Some (naive 63928785600000000)
       else if s = ''2026-11-01T09:00:00+00:00''
         then Some \<lparr>instant = 63929120400000000, utcoffset = Some 0\<rparr>
       else if s = ''2026-11-01T10:00:00+02:00''
         then Some \<lparr>instant = 63929124000000000, utcoffset = Some 7200000000\<rparr>
       else if s = ''2026-11-01T09:00:00'' then Some (naive 63929120400000000)
       else if s = ''2026-11-02T10:30:00'' then Some (naive 63929212200000000)
       else if s = ''2026-11-03T09:00:00'' then Some (naive 63929293200000000)
       else None),
     isoformat = (\<lambda>d.
       if d = naive 63929390400000000 then ''2026-11-04T12:00:00''
       else if d = naive 63928785600000000 then ''2026-10-28T12:00:00''
       else if d = naive 63929120400000000 then ''2026-11-01T09:00:00''
       else ''?'')\<rparr>"

section \<open>The report: \<^verbatim>\<open>Announcement\<close>, \<^verbatim>\<open>generate_report\<close>\<close>

text \<open>
  The dictionary \<^verbatim>\<open>scrape_website_news\<close> builds for a candidate has six text fields;
  the dataclass \<^verbatim>\<open>Announcement\<close> has the same six and the four of the classifier.
  The importance score is the exact value of the Python number (an \<^verbatim>\<open>int\<close> or a
  finite \<^verbatim>\<open>float\<close>). Texts are compared as Python compares them, character by
  character.
\<close>

record raw_announcement =
  company :: string
  title :: string
  date :: string
  url :: string
  content :: string
  source :: string

record announcement = raw_announcement +
  importance_score :: real
  category :: string
  summary :: string
  implications :: string

text \<open>
  \<^verbatim>\<open>list.sort(key=..., reverse=True)\<close>: CPython reverses the list, sorts it stably in
  ascending order of the key, and reverses the result, so that elements of equal key
  keep the order they had.
\<close>

definition py_sort_reverse :: "('a \<Rightarrow> 'k::linorder) \<Rightarrow> 'a list \<Rightarrow> 'a list" where
  "py_sort_reverse key xs = rev (sort_key key (rev xs))"

definition report_key :: "announcement \<Rightarrow> string \<times> string" where
  "report_key x = (company x, date x)"

text \<open>
  The dictionary \<^verbatim>\<open>companies\<close> of lines 307 to 311, with the insertion order a Python
  dictionary keeps: a company that is not yet a key is added last with an empty list,
  then the announcement is appended to the list of its company.
\<close>

fun dict_append ::
  "(string \<times> announcement list) list \<Rightarrow> announcement \<Rightarrow> (string \<times> announcement list) list" where
  "dict_append [] a = [(company a, [a])]"
| "dict_append ((c, as) # d) a =
     (if c = company a then (c, as @ [a]) # d else (c, as) # dict_append d a)"

definition group_by_company :: "announcement list \<Rightarrow> (string \<times> announcement list) list" where
  "group_by_company announcements = foldl dict_append [] announcements"

text \<open>
  \<^verbatim>\<open>str\<close> of a length, and the format \<^verbatim>\<open>.1f\<close> of a finite number: one decimal,
  the exact value rounded half to even.
\<close>

definition digit_char :: "nat \<Rightarrow> char" where
  "digit_char n = char_of (48 + n)"

fun show_nat :: "nat \<Rightarrow> string" where
  "show_nat n = (if n < 10 then [digit_char n] else show_nat (n div 10) @ [digit_char (n mod 10)])"

declare show_nat.simps [simp del]

definition round_half_even :: "real \<Rightarrow> int" where
  "round_half_even x =
     (let m = \<lfloor>x\<rfloor>; r = x - of_int m
      in if r < 1 / 2 then m else if 1 / 2 < r then m + 1 else if even m then m else m + 1)"

definition format_1f :: "real \<Rightarrow> string" where
  "format_1f x =
     (let n = nat (round_half_even (\<bar>x\<bar> * 10))
      in (if x < 0 then ''-'' else []) @ show_nat (n div 10) @ ''.'' @ show_nat (n mod 10))"

text \<open>
  The text of lines 282 to 292. It is a plain string, not an f-string: the braces and
  the expression between them are part of the text.
\<close>

definition empty_report :: string where
  "empty_report =
     ''# PEX Competitor Research Report\<newline>            \<newline>## Summary\<newline>'' @
     ''No significant announcements found since the last report.\<newline>\<newline>'' @
     ''## Companies Monitored\<newline>- Uponor (including Georg Fischer)\<newline>- Viega\<newline>\<newline>'' @
     ''Report generated on: {datetime.now().strftime('%Y-%m-%d %H:%M:%S')}\<newline>''"

text \<open>
  The f-string of lines 297 to 304; \<open>stamp\<close> is the text
  \<^verbatim>\<open>datetime.now().strftime('%Y-%m-%d %H:%M:%S')\<close> gives when the line runs.
\<close>

definition report_header :: "string \<Rightarrow> nat \<Rightarrow> string" where
  "report_header stamp n =
     ''# PEX Competitor Research Report\<newline>\<newline>Report generated on: '' @ stamp @
     ''\<newline>\<newline>## Executive Summary\<newline>Found '' @ show_nat n @
     '' significant announcements from PEX manufacturers.\<newline>\<newline>''"

text \<open>Lines 318 to 326: the block of one announcement, appended to the report.\<close>

definition add_announcement :: "string \<Rightarrow> announcement \<Rightarrow> string" where
  "add_announcement report a =
     report @ ''### '' @ title a @ ''\<newline>''
       @ ''**Date:** '' @ date a @ ''\<newline>''
       @ ''**Category:** '' @ category a @ ''\<newline>''
       @ ''**Importance Score:** '' @ format_1f (importance_score a) @ ''/1.0\<newline>''
       @ ''**Source:** '' @ source a @ ''\<newline>\<newline>''
       @ ''**Summary:** '' @ summary a @ ''\<newline>\<newline>''
       @ ''**Business Implications:** '' @ implications a @ ''\<newline>\<newline>''
       @ ''**Source Link:** '' @ url a @ ''\<newline>\<newline>''
       @ ''---\<newline>\<newline>''"

text \<open>Lines 314 to 326: the section of one company.\<close>

definition add_company :: "string \<Rightarrow> string \<times> announcement list \<Rightarrow> string" where
  "add_company report = (\<lambda>(c, company_announcements).
     foldl add_announcement (report @ ''\<newline>## '' @ c @ ''\<newline>\<newline>'') company_announcements)"

text \<open>
  \<^verbatim>\<open>generate_report\<close>. The method sorts the list it is given in place, so the
  function returns the report and the caller's list as the call leaves it.
\<close>

definition generate_report :: "string \<Rightarrow> announcement list \<Rightarrow> string \<times> announcement list" where
  "generate_report stamp announcements =
     (if announcements = [] then (empty_report, announcements)
      else
        let sorted_announcements = py_sort_reverse report_key announcements;
            report = report_header stamp (length sorted_announcements);
            companies = group_by_company sorted_announcements
        in (foldl add_company report companies, sorted_announcements))"

text \<open>
  What the loop of lines 308 to 311 builds from a list in which the companies do not
  increase: the groups, read in order, are the list; every group is not empty and holds
  one company; the companies of the groups decrease strictly.
\<close>

definition grouped :: "announcement list \<Rightarrow> (string \<times> announcement list) list \<Rightarrow> bool" where
  "grouped xs g =
     (concat (map snd g) = xs
      \<and> sorted_wrt (\<lambda>c c'. c' < c) (map fst g)
      \<and> (\<forall>(c, as) \<in> set g. as \<noteq> [] \<and> (\<forall>a \<in> set as. company a = c)))"

text \<open>Fixtures: three announcements of two companies.\<close>

definition ann_u1 :: announcement where
  "ann_u1 = \<lparr>company = ''Uponor'', title = ''Uponor Launches New PEX-A Fitting Line'',
     date = ''2026-11-01T09:00:00'', url = ''https://www.uponor.com/news/pex-a'',
     content = ''...strategic expansion...'', source = ''website'',
     importance_score = 0.75, category = ''Product Launch'',
     summary = ''A new fitting line.'', implications = ''A wider range.''\<rparr>"

definition ann_u2 :: announcement where
  "ann_u2 = \<lparr>company = ''Uponor'', title = ''Uponor Reports Third Quarter'',
     date = ''2026-11-03T09:00:00'', url = ''https://www.uponor.com/news/q3'',
     content = ''...net sales...'', source = ''website'',
     importance_score = 0.5, category = ''Financial Results'',
     summary = ''Quarterly figures.'', implications = ''Stable margins.''\<rparr>"

definition ann_v1 :: announcement where
  "ann_v1 = \<lparr>company = ''Viega'', title = ''Viega Opens New Plant'',
     date = ''2026-11-02T10:30:00'', url = ''https://www.viega.com/news/plant'',
     content = ''...new production site...'', source = ''website'',
     importance_score = 0.875, category = ''Other'',
     summary = ''A new plant.'', implications = ''More capacity.''\<rparr>"

text \<open>
  Fixtures: two announcements of one company whose dates carry a UTC offset. The first
  is of 09:00 UTC; the second, of 10:00 at two hours east, is of 08:00 UTC.
\<close>

definition ann_z1 :: announcement where
  "ann_z1 = \<lparr>company = ''Uponor'', title = ''Uponor Morning Note'',
     date = ''2026-11-01T09:00:00+00:00'', url = ''https://www.uponor.com/news/morning'',
     content = ''...morning...'', source = ''website'',
     importance_score = 0.5, category = ''Other'',
     summary = ''The later note.'', implications = ''None.''\<rparr>"

definition ann_z2 :: announcement where
  "ann_z2 = \<lparr>company = ''Uponor'', title = ''Uponor Earlier Note'',
     date = ''2026-11-01T10:00:00+02:00'', url = ''https://www.uponor.com/news/earlier'',
     content = ''...earlier...'', source = ''website'',
     importance_score = 0.5, category = ''Other'',
     summary = ''The earlier note.'', implications = ''None.''\<rparr>"

section \<open>The extractor: \<^verbatim>\<open>scrape_website_news\<close>\<close>

text \<open>
  What the method reads of one element a selector matched (a \<^verbatim>\<open>Tag\<close> of the HTML
  parser, which is always true as a condition):
  \<^item> \<open>heading\<close>: \<^verbatim>\<open>get_text()\<close> of \<^verbatim>\<open>article.find(['h1', 'h2', 'h3', 'h4', 'a'])\<close>,
    \<open>None\<close> when \<^verbatim>\<open>find\<close> returns \<^verbatim>\<open>None\<close>;
  \<^item> \<open>href\<close>: \<^verbatim>\<open>get('href')\<close> of \<^verbatim>\<open>article.find('a')\<close>, \<open>None\<close> when there is no
    link or the link has no such attribute;
  \<^item> \<open>date_elem\<close>: for the element \<^verbatim>\<open>article.find(['time', ...])\<close> returns, its
    \<^verbatim>\<open>get('datetime')\<close> and its \<^verbatim>\<open>get_text()\<close>;
  \<^item> \<open>body\<close>: \<^verbatim>\<open>article.get_text()\<close>;
  \<^item> \<open>seen_at\<close>: the clock as line 141 reads it for this element.
\<close>

record block =
  heading :: "string option"
  href :: "string option"
  date_elem :: "(string option \<times> string) option"
  body :: string
  seen_at :: int

text \<open>
  A parsed page gives the elements each selector matches; a fetch raises or returns a
  status code and a page. What the HTML parser raises on the content counts as raised by
  the fetch: it leaves the loop over the paths in the same way.
\<close>

type_synonym page = "string \<Rightarrow> block list"

type_synonym web = "string \<Rightarrow> exn + nat \<times> page"

definition news_paths :: "string list" where
  "news_paths = [''/news'', ''/press'', ''/press-releases'', ''/media'', ''/newsroom'', ''/media-center'']"

definition article_selectors :: "string list" where
  "article_selectors =
     [''article'', ''.news-item'', ''.press-release'', ''.media-item'',
      ''[class*=\"news\"]'', ''[class*=\"press\"]'']"

text \<open>
  Lines 140 to 149: the date of the element. Without a date element, or when
  \<^verbatim>\<open>fromisoformat\<close> raises, it is the clock.
\<close>

definition resolve_date :: "pylib \<Rightarrow> block \<Rightarrow> pydatetime" where
  "resolve_date L article =
     (case date_elem article of
        None \<Rightarrow> naive (seen_at article)
      | Some (attr, txt) \<Rightarrow>
          (let date_str = (case attr of
                             None \<Rightarrow> txt
                           | Some s \<Rightarrow> if s \<noteq> [] then s else txt)
           in case fromisoformat L (replace_Z date_str) of
                None \<Rightarrow> naive (seen_at article)
              | Some d \<Rightarrow> d))"

text \<open>
  Lines 123 to 160, the body of the \<^verbatim>\<open>try\<close> for one element: \<open>Inr None\<close> when the
  element is passed over (no heading, or a date before \<open>since_date\<close>), \<open>Inl\<close> when
  the body raises (the comparison of line 152, between a naive and an aware value).
\<close>

definition extract_article ::
  "pylib \<Rightarrow> string \<Rightarrow> string \<Rightarrow> string \<Rightarrow> pydatetime \<Rightarrow> block \<Rightarrow> exn + raw_announcement option" where
  "extract_article L base_url news_url company_name since_date article =
     (case heading article of
        None \<Rightarrow> Inr None
      | Some t \<Rightarrow>
          (let article_url =
                 (case href article of
                    None \<Rightarrow> news_url
                  | Some h \<Rightarrow>
                      if h \<noteq> [] then (if hd h = CHR ''/'' then base_url @ h else h) else news_url);
               article_date = resolve_date L article
           in case dt_ge article_date since_date of
                Inl e \<Rightarrow> Inl e
              | Inr keep \<Rightarrow>
                  if keep
                  then Inr (Some \<lparr>company = company_name, title = strip t,
                         date = isoformat L article_date, url = article_url,
                         content = take 1000 (body article), source = ''website''\<rparr>)
                  else Inr None))"

text \<open>
  Lines 121 to 164: the loop over the elements of one selector. An element whose body
  raises is logged and passed over.
\<close>

definition scan_articles ::
  "pylib \<Rightarrow> string \<Rightarrow> string \<Rightarrow> string \<Rightarrow> pydatetime \<Rightarrow> block list \<Rightarrow>
   raw_announcement list \<Rightarrow> raw_announcement list" where
  "scan_articles L base_url news_url company_name since_date articles announcements =
     foldl (\<lambda>acc article.
              case extract_article L base_url news_url company_name since_date article of
                Inr (Some r) \<Rightarrow> acc @ [r]
              | Inr None \<Rightarrow> acc
              | Inl e \<Rightarrow> acc)
       announcements articles"

text \<open>Lines 118 to 167: the loop over the selectors, left at the first one that matches.\<close>

fun scan_selectors ::
  "pylib \<Rightarrow> string \<Rightarrow> string \<Rightarrow> string \<Rightarrow> pydatetime \<Rightarrow> page \<Rightarrow> string list \<Rightarrow>
   raw_announcement list \<Rightarrow> raw_announcement list" where
  "scan_selectors L base_url news_url company_name since_date soup [] announcements = announcements"
| "scan_selectors L base_url news_url company_name since_date soup (selector # selectors) announcements =
     (let articles = soup selector;
          announcements' = scan_articles L base_url news_url company_name since_date articles announcements
      in if articles \<noteq> [] then announcements'
         else scan_selectors L base_url news_url company_name since_date soup selectors announcements')"

text \<open>
  Lines 104 to 177: the loop over the paths. The second component lists the addresses
  fetched, in order. A \<^verbatim>\<open>RequestException\<close> goes on to the next path; any other
  exception of the fetch leaves the loop by the outer \<^verbatim>\<open>except\<close>.
\<close>

fun try_paths ::
  "pylib \<Rightarrow> web \<Rightarrow> string \<Rightarrow> string \<Rightarrow> pydatetime \<Rightarrow> string list \<Rightarrow>
   raw_announcement list \<times> string list \<Rightarrow> raw_announcement list \<times> string list" where
  "try_paths L fetch base_url company_name since_date [] (announcements, fetched) =
     (announcements, fetched)"
| "try_paths L fetch base_url company_name since_date (path # paths) (announcements, fetched) =
     (let news_url = base_url @ path in
      case fetch news_url of
        Inl e \<Rightarrow>
          if e = RequestException
          then try_paths L fetch base_url company_name since_date paths (announcements, fetched @ [news_url])
          else (announcements, fetched @ [news_url])
      | Inr (status_code, soup) \<Rightarrow>
          if status_code = 200
          then
            (let announcements' =
               scan_selectors L base_url news_url company_name since_date soup article_selectors announcements
             in if announcements' \<noteq> [] then (announcements', fetched @ [news_url])
                else try_paths L fetch base_url company_name since_date paths
                       (announcements', fetched @ [news_url]))
          else try_paths L fetch base_url company_name since_date paths (announcements, fetched @ [news_url]))"

definition scrape_website_news ::
  "pylib \<Rightarrow> web \<Rightarrow> string \<Rightarrow> string \<Rightarrow> pydatetime \<Rightarrow> raw_announcement list \<times> string list" where
  "scrape_website_news L fetch base_url company_name since_date =
     try_paths L fetch base_url company_name since_date news_paths ([], [])"

text \<open>
  For the statements about the paths: the candidates the page of one path gives, and
  whether the loop ends at that path.
\<close>

definition page_candidates ::
  "pylib \<Rightarrow> web \<Rightarrow> string \<Rightarrow> string \<Rightarrow> pydatetime \<Rightarrow> string \<Rightarrow> raw_announcement list" where
  "page_candidates L fetch base_url company_name since_date path =
     (case fetch (base_url @ path) of
        Inl e \<Rightarrow> []
      | Inr (status_code, soup) \<Rightarrow>
          if status_code = 200
          then scan_selectors L base_url (base_url @ path) company_name since_date soup article_selectors []
          else [])"

definition ends_trial :: "pylib \<Rightarrow> web \<Rightarrow> string \<Rightarrow> string \<Rightarrow> pydatetime \<Rightarrow> string \<Rightarrow> bool" where
  "ends_trial L fetch base_url company_name since_date path =
     (page_candidates L fetch base_url company_name since_date path \<noteq> []
      \<or> (case fetch (base_url @ path) of Inl e \<Rightarrow> e \<noteq> RequestException | Inr p \<Rightarrow> False))"

text \<open>
  Fixtures. The clock reads 2026-11-04T12:00:00 and the window starts at
  2026-10-28T12:00:00. The site answers 404 at \<^verbatim>\<open>/news\<close> and, at \<^verbatim>\<open>/press\<close>, a page
  whose selector \<^verbatim>\<open>.news-item\<close> matches five elements: one dated 2020, one dated at
  the start of the window, one without a date, one without a heading, and one dated
  with a trailing \<^verbatim>\<open>Z\<close>.
\<close>

definition since0 :: pydatetime where
  "since0 = naive 63928785600000000"

definition block_old :: block where
  "block_old = \<lparr>heading = Some ''Old story'', href = Some ''/press/old'',
     date_elem = Some (Some ''2020-01-01T00:00:00'', ''January 1, 2020''),
     body = ''Old story January 1, 2020'', seen_at = 63929390400000000\<rparr>"

definition block_edge :: block where
  "block_edge = \<lparr>heading = Some '' Viega Opens New Plant '', href = Some ''/press/plant'',
     date_elem = Some (Some ''2026-10-28T12:00:00'', ''October 28, 2026''),
     body = ''Viega Opens New Plant October 28, 2026'', seen_at = 63929390400000000\<rparr>"

definition block_undated :: block where
  "block_undated = \<lparr>heading = Some ''Viega at the fair'', href = None,
     date_elem = None, body = ''Viega at the fair'', seen_at = 63929390400000000\<rparr>"

definition block_untitled :: block where
  "block_untitled = \<lparr>heading = None, href = None,
     date_elem = None, body = ''fragment'', seen_at = 63929390400000000\<rparr>"

definition block_zulu :: block where
  "block_zulu = \<lparr>heading = Some ''Viega Partners'', href = Some ''https://example.org/p'',
     date_elem = Some (Some ''2026-11-01T09:00:00Z'', ''November 1, 2026''),
     body = ''Viega Partners November 1, 2026'', seen_at = 63929390400000000\<rparr>"

definition page0 :: page where
  "page0 = (\<lambda>selector.
     if selector = ''.news-item''
     then [block_old, block_edge, block_undated, block_untitled, block_zulu] else [])"

definition web0 :: web where
  "web0 = (\<lambda>u.
     if u = ''https://www.viega.com/news'' then Inr (404, \<lambda>selector. [])
     else if u = ''https://www.viega.com/press'' then Inr (200, page0)
     else Inl RequestException)"

definition cand_edge :: raw_announcement where
  "cand_edge = \<lparr>company = ''Viega'', title = ''Viega Opens New Plant'',
     date = ''2026-10-28T12:00:00'', url = ''https://www.viega.com/press/plant'',
     content = ''Viega Opens New Plant October 28, 2026'', source = ''website''\<rparr>"

definition cand_undated :: raw_announcement where
  "cand_undated = \<lparr>company = ''Viega'', title = ''Viega at the fair'',
     date = ''2026-11-04T12:00:00'', url = ''https://www.viega.com/press'',
     content = ''Viega at the fair'', source = ''website''\<rparr>"

text \<open>A site that answers every address with a page on which no selector matches.\<close>

definition web_blank :: web where
  "web_blank = (\<lambda>u. Inr (200, \<lambda>selector. []))"

section \<open>The classifier step: \<^verbatim>\<open>analyze_with_openai\<close>\<close>

text \<open>
  Python's \<^verbatim>\<open>format(value, spec)\<close> for a text \<open>value\<close>, as CPython 3.11 computes it
  (\<^verbatim>\<open>parse_internal_render_format_spec\<close> and \<^verbatim>\<open>format_string_internal\<close>): the
  specification \<^verbatim>\<open>[[fill]align][sign][z][#][0][width][,|_][.precision][type]\<close> is read
  from the left, at most one character may remain for the type, and every refusal is a
  \<^verbatim>\<open>ValueError\<close>. An empty specification gives the text itself.
\<close>

record fmt =
  fmt_fill :: char
  fmt_align :: char
  fmt_sign :: "char option"
  fmt_no_neg_0 :: bool
  fmt_alternate :: bool
  fmt_width :: "nat option"
  fmt_separators :: "char option"
  fmt_precision :: "nat option"
  fmt_type :: char

definition is_alignment_token :: "char \<Rightarrow> bool" where
  "is_alignment_token c = (c \<in> set ''<>=^'')"

definition is_sign_element :: "char \<Rightarrow> bool" where
  "is_sign_element c = (c \<in> set '' +-'')"

definition is_digit :: "char \<Rightarrow> bool" where
  "is_digit c = (c \<in> set ''0123456789'')"

definition get_integer :: "string \<Rightarrow> nat option \<times> string" where
  "get_integer s =
     (let ds = takeWhile is_digit s
      in (if ds = [] then None
          else Some (foldl (\<lambda>n c. 10 * n + (of_char c - 48)) 0 ds),
          dropWhile is_digit s))"

definition take_flag :: "char \<Rightarrow> string \<Rightarrow> bool \<times> string" where
  "take_flag c s = (case s of [] \<Rightarrow> (False, s) | x # rest \<Rightarrow> if x = c then (True, rest) else (False, s))"

definition separator_allowed :: "char \<Rightarrow> char \<Rightarrow> bool" where
  "separator_allowed sep ty =
     (ty \<in> set ''defgEG%F'' \<or> (ty \<in> set ''boxX'' \<and> sep = CHR ''_''))"

definition parse_format_spec :: "string \<Rightarrow> char \<Rightarrow> char \<Rightarrow> exn + fmt" where
  "parse_format_spec spec default_type default_align =
     (let (fill, al, s1) =
            (case spec of
               [] \<Rightarrow> (None, None, spec)
             | [a] \<Rightarrow> if is_alignment_token a then (None, Some a, []) else (None, None, spec)
             | a # b # rest \<Rightarrow>
                 if is_alignment_token b then (Some a, Some b, rest)
                 else if is_alignment_token a then (None, Some a, b # rest)
                 else (None, None, spec));
          (sg, s2) =
            (case s1 of
               [] \<Rightarrow> (None, s1)
             | c # rest \<Rightarrow> if is_sign_element c then (Some c, rest) else (None, s1));
          (z, s3) = take_flag CHR ''z'' s2;
          (alt, s4) = take_flag CHR ''#'' s3;
          (zero, s5) = (if fill = None then take_flag CHR ''0'' s4 else (False, s4));
          (w, s6) = get_integer s5;
          (comma, s7) = take_flag CHR '','' s6;
          (underscore, s8) = take_flag CHR ''_'' s7
      in if comma \<and> underscore then Inl ValueError
         else if underscore \<and> s8 \<noteq> [] \<and> hd s8 = CHR '','' then Inl ValueError
         else
           (case (if s8 \<noteq> [] \<and> hd s8 = CHR ''.''
                  then (case get_integer (tl s8) of
                          (None, rest) \<Rightarrow> Inl ValueError
                        | (Some p, rest) \<Rightarrow> Inr (Some p, rest))
                  else Inr (None, s8)) of
              Inl e \<Rightarrow> Inl e
            | Inr (prec, s9) \<Rightarrow>
                if 1 < length s9 then Inl ValueError
                else
                  (let ty = (case s9 of [] \<Rightarrow> default_type | c # rest \<Rightarrow> c);
                       sep = (if comma then Some CHR '','' else if underscore then Some CHR ''_'' else None)
                   in if (case sep of None \<Rightarrow> False | Some c \<Rightarrow> \<not> separator_allowed c ty)
                      then Inl ValueError
                      else Inr \<lparr>fmt_fill = (case fill of Some c \<Rightarrow> c
                                               | None \<Rightarrow> if zero then CHR ''0'' else CHR '' ''),
                                 fmt_align = (case al of Some c \<Rightarrow> c
                                               | None \<Rightarrow> if zero \<and> default_align = CHR ''>''
                                                          then CHR ''='' else default_align),
                                 fmt_sign = sg, fmt_no_neg_0 = z, fmt_alternate = alt,
                                 fmt_width = w, fmt_separators = sep, fmt_precision = prec,
                                 fmt_type = ty\<rparr>)))"

definition format_str :: "string \<Rightarrow> string \<Rightarrow> exn + string" where
  "format_str v spec =
     (if spec = [] then Inr v
      else
        case parse_format_spec spec CHR ''s'' CHR ''<'' of
          Inl e \<Rightarrow> Inl e
        | Inr f \<Rightarrow>
            if fmt_type f \<noteq> CHR ''s'' then Inl ValueError
            else if fmt_sign f \<noteq> None \<or> fmt_no_neg_0 f \<or> fmt_alternate f \<or> fmt_align f = CHR ''=''
            then Inl ValueError
            else
              (let shown = (case fmt_precision f of None \<Rightarrow> v | Some p \<Rightarrow> take p v);
                   total = (case fmt_width f of None \<Rightarrow> length shown | Some w \<Rightarrow> max w (length shown));
                   lpad = (if fmt_align f = CHR ''>'' then total - length shown
                           else if fmt_align f = CHR ''^'' then (total - length shown) div 2
                           else 0);
                   rpad = total - length shown - lpad
               in Inr (replicate lpad (fmt_fill f) @ shown @ replicate rpad (fmt_fill f))))"

text \<open>
  An f-string is a sequence of literal texts and replacement fields; a field is the
  value of its expression (here always a text) and its format specification. The
  fields are formatted from the left, and the first that raises ends the evaluation.
\<close>

datatype fpart = Lit string | Field string string

fun fstring :: "fpart list \<Rightarrow> exn + string" where
  "fstring [] = Inr []"
| "fstring (Lit s # parts) =
     (case fstring parts of Inl e \<Rightarrow> Inl e | Inr rest \<Rightarrow> Inr (s @ rest))"
| "fstring (Field v spec # parts) =
     (case format_str v spec of
        Inl e \<Rightarrow> Inl e
      | Inr s \<Rightarrow> (case fstring parts of Inl e \<Rightarrow> Inl e | Inr rest \<Rightarrow> Inr (s @ rest)))"

text \<open>
  The f-string of lines 184 to 220, as Python's parser splits it. The braces of lines
  213 and 219 are not doubled, so they open and close a replacement field: its
  expression is the text \<^verbatim>\<open>"importance_score"\<close>, and what follows the colon, up to the
  closing brace, is its format specification.
\<close>

definition prompt_parts :: "raw_announcement \<Rightarrow> fpart list" where
  "prompt_parts announcement =
     [Lit (''\<newline>        You are analyzing a business announcement from ''),
      Field (company announcement) [],
      Lit ('', a PEX (cross-linked polyethylene) piping manufacturer.\<newline>\<newline>'' @
          ''        Title: ''),
      Field (title announcement) [],
      Lit (''\<newline>        Content: ''),
      Field (content announcement) [],
      Lit (''\<newline>        Date: ''),
      Field (date announcement) [],
      Lit (''\<newline>        Source: ''),
      Field (source announcement) [],
      Lit (''\<newline>\<newline>        Please analyze this announcement and provide:\<newline>\<newline>'' @
          ''        1. IMPORTANCE SCORE (0.0-1.0): Rate how important this is for understanding the company's competitive position\<newline>'' @
          ''           - 0.0-0.3: Low importance (routine updates, minor personnel, ESG initiatives)\<newline>'' @
          ''           - 0.4-0.6: Medium importance (product updates, regional partnerships)\<newline>'' @
          ''           - 0.7-1.0: High importance (major product launches, strategic partnerships, financial results, C-suite changes)\<newline>\<newline>'' @
          ''        2. CATEGORY: Classify as one of: Product Launch, Financial Results, Partnership, Personnel, Project Win, Technology, Regulatory, Other\<newline>\<newline>'' @
          ''        3. SUMMARY: Provide a 2-3 sentence summary of the key points\<newline>\<newline>'' @
          ''        4. BUSINESS IMPLICATIONS: Analyze what this means for their competitive position, market strategy, or business prospects (2-3 sentences)\<newline>\<newline>'' @
          ''        Filter OUT announcements that are primarily about:\<newline>'' @
          ''        - ESG/sustainability initiatives without business impact\<newline>'' @
          ''        - Community involvement or charitable activities\<newline>'' @
          ''        - Trade show booth announcements\<newline>'' @
          ''        - Routine compliance updates\<newline>'' @
          ''        - Minor personnel changes (non-C-suite)\<newline>\<newline>'' @
          ''        Respond in this exact JSON format:\<newline>        ''),
      Field ''importance_score''
         ('' 0.0,\<newline>            \"category\": \"Category\",\<newline>'' @
          ''            \"summary\": \"Summary text\",\<newline>'' @
          ''            \"implications\": \"Business implications text\",\<newline>'' @
          ''            \"should_include\": true\<newline>        ''),
      Lit (''\<newline>        '')]"

text \<open>
  The reply of the classifier service to one prompt: the call raises, or the content
  is not the JSON text of an object (\<^verbatim>\<open>json.loads\<close> or \<^verbatim>\<open>result.get\<close> raises), or
  it is an object. Of an object the method reads five fields; a field the object does
  not hold is \<open>None\<close>, and a field it holds has the type the prompt asks for.
\<close>

record response =
  should_include :: "bool option"
  score :: "real option"
  r_category :: "string option"
  r_summary :: "string option"
  r_implications :: "string option"

datatype reply = CallRaises | NotAnObject | Object response

text \<open>
  Lines 231 to 246. \<^verbatim>\<open>result.get('should_include', False)\<close> and
  \<^verbatim>\<open>result.get('importance_score', 0)\<close> put a default in the place of a missing field;
  \<^verbatim>\<open>result['category']\<close> raises \<^verbatim>\<open>KeyError\<close> on a missing field. A Python \<^verbatim>\<open>float\<close>
  is above the \<^verbatim>\<open>float\<close> \<^verbatim>\<open>0.3\<close> exactly when its value is above three tenths: no
  \<^verbatim>\<open>float\<close> lies between the two.
\<close>

definition make_announcement :: "raw_announcement \<Rightarrow> response \<Rightarrow> exn + announcement option" where
  "make_announcement announcement result =
     (if (case should_include result of None \<Rightarrow> False | Some b \<Rightarrow> b)
         \<and> 0.3 < (case score result of None \<Rightarrow> 0 | Some x \<Rightarrow> x)
      then
        (case score result of
           None \<Rightarrow> Inl KeyError
         | Some s \<Rightarrow>
        (case r_category result of
           None \<Rightarrow> Inl KeyError
         | Some c \<Rightarrow>
        (case r_summary result of
           None \<Rightarrow> Inl KeyError
         | Some sm \<Rightarrow>
        (case r_implications result of
           None \<Rightarrow> Inl KeyError
         | Some im \<Rightarrow>
             Inr (Some \<lparr>company = company announcement, title = title announcement,
                    date = date announcement, url = url announcement,
                    content = content announcement, source = source announcement,
                    importance_score = s, category = c, summary = sm,
                    implications = im\<rparr>)))))
      else Inr None)"

text \<open>
  \<^verbatim>\<open>analyze_with_openai\<close>. The prompt is built before the \<^verbatim>\<open>try\<close> (lines 184 to
  220), so what it raises leaves the method; what the call and lines 229 to 246 raise
  is caught at line 248, logged, and answered with \<^verbatim>\<open>None\<close>.
\<close>

definition analyze_with_openai :: "(string \<Rightarrow> reply) \<Rightarrow> raw_announcement \<Rightarrow> exn + announcement option" where
  "analyze_with_openai api announcement =
     (case fstring (prompt_parts announcement) of
        Inl e \<Rightarrow> Inl e
      | Inr prompt \<Rightarrow>
          (case api prompt of
             CallRaises \<Rightarrow> Inr None
           | NotAnObject \<Rightarrow> Inr None
           | Object result \<Rightarrow>
               (case make_announcement announcement result of
                  Inl e \<Rightarrow> Inr None
                | Inr analyzed \<Rightarrow> Inr analyzed)))"

section \<open>The orchestration: \<^verbatim>\<open>collect_announcements\<close>, \<^verbatim>\<open>save_report\<close>, \<^verbatim>\<open>run\<close>\<close>

text \<open>The registry \<^verbatim>\<open>self.companies\<close> of line 39: the name of each company and its sites, in order.\<close>

definition self_companies :: "(string \<times> string list) list" where
  "self_companies =
     [(''Uponor'', [''https://www.uponor.com'', ''https://www.georgfischer.com'']),
      (''Viega'', [''https://www.viega.com''])]"

text \<open>
  Lines 265 to 268: the candidates of one site are analysed in order. Nothing catches
  what \<^verbatim>\<open>analyze_with_openai\<close> raises.
\<close>

fun analyze_each ::
  "(string \<Rightarrow> reply) \<Rightarrow> raw_announcement list \<Rightarrow> announcement list \<Rightarrow> exn + announcement list" where
  "analyze_each api [] all_announcements = Inr all_announcements"
| "analyze_each api (raw_announcement # rest) all_announcements =
     (case analyze_with_openai api raw_announcement of
        Inl e \<Rightarrow> Inl e
      | Inr analyzed \<Rightarrow>
          analyze_each api rest
            (case analyzed of
               None \<Rightarrow> all_announcements
             | Some a \<Rightarrow> all_announcements @ [a]))"

text \<open>
  What a run does to the world outside, in the order in which it does it: the fetch of
  an address, the attempt to write a report file (its name and the text), the attempt
  to write the marker file (the text).
\<close>

datatype io = Fetched string | ReportWrite string string | MarkerWrite string

text \<open>
  Lines 260 to 271: the sites of one company. The second component is the record of
  what was done so far, to which each site adds the addresses fetched for it.
\<close>

fun collect_sites ::
  "pylib \<Rightarrow> web \<Rightarrow> (string \<Rightarrow> reply) \<Rightarrow> pydatetime \<Rightarrow> string \<Rightarrow> string list \<Rightarrow>
   announcement list \<times> io list \<Rightarrow> (exn + announcement list) \<times> io list" where
  "collect_sites L fetch api since_date name [] (all_announcements, past) =
     (Inr all_announcements, past)"
| "collect_sites L fetch api since_date name (website # websites) (all_announcements, past) =
     (let (raw_announcements, fetched) = scrape_website_news L fetch website name since_date;
          past' = past @ map Fetched fetched
      in case analyze_each api raw_announcements all_announcements of
           Inl e \<Rightarrow> (Inl e, past')
         | Inr all_announcements' \<Rightarrow>
             collect_sites L fetch api since_date name websites (all_announcements', past'))"

text \<open>Lines 256 to 276: the companies of the registry.\<close>

fun collect_companies ::
  "pylib \<Rightarrow> web \<Rightarrow> (string \<Rightarrow> reply) \<Rightarrow> pydatetime \<Rightarrow> (string \<times> string list) list \<Rightarrow>
   announcement list \<times> io list \<Rightarrow> (exn + announcement list) \<times> io list" where
  "collect_companies L fetch api since_date [] (all_announcements, past) =
     (Inr all_announcements, past)"
| "collect_companies L fetch api since_date ((name, websites) # rest) (all_announcements, past) =
     (case collect_sites L fetch api since_date name websites (all_announcements, past) of
        (Inl e, past') \<Rightarrow> (Inl e, past')
      | (Inr all_announcements', past') \<Rightarrow>
          collect_companies L fetch api since_date rest (all_announcements', past'))"

definition collect_announcements ::
  "pylib \<Rightarrow> web \<Rightarrow> (string \<Rightarrow> reply) \<Rightarrow> pydatetime \<Rightarrow> io list \<Rightarrow>
   (exn + announcement list) \<times> io list" where
  "collect_announcements L fetch api since_date past =
     collect_companies L fetch api since_date self_companies ([], past)"

text \<open>
  A write, \<^verbatim>\<open>with open(name, 'w') as f: f.write(text)\<close>, ends in one of three ways:
  the text is written; \<^verbatim>\<open>open\<close> raises and the file is as it was; \<^verbatim>\<open>open\<close> has
  emptied the file and the write raises, which leaves the first \<open>k\<close> characters of
  the text (none when \<open>k\<close> is 0).
\<close>

datatype write_outcome = Written | OpenRaises | WriteRaises nat

text \<open>
  The files of the agent: the window marker, the reports by file name, how a write of
  each of the two ends, and the record of what was done.
\<close>

record files =
  marker :: marker_file
  marker_write :: write_outcome
  reports :: "string \<rightharpoonup> string"
  reports_write :: write_outcome
  history :: "io list"

text \<open>
  \<^verbatim>\<open>update_timestamp\<close> and \<^verbatim>\<open>save_report\<close>. Both catch what the write raises and
  log it. \<open>now_text\<close> is \<^verbatim>\<open>datetime.now().isoformat()\<close> and \<open>day\<close> is
  \<^verbatim>\<open>datetime.now().strftime('%Y-%m-%d')\<close>.
\<close>

definition update_timestamp :: "string \<Rightarrow> files \<Rightarrow> files" where
  "update_timestamp now_text fs =
     (let fs' = fs\<lparr>history := history fs @ [MarkerWrite now_text]\<rparr>
      in case marker_write fs of
           Written \<Rightarrow> fs'\<lparr>marker := Content now_text\<rparr>
         | OpenRaises \<Rightarrow> fs'
         | WriteRaises k \<Rightarrow> fs'\<lparr>marker := Content (take k now_text)\<rparr>)"

definition save_report :: "string \<Rightarrow> string \<Rightarrow> files \<Rightarrow> files" where
  "save_report day report fs =
     (let filename = ''reports/competitor_report_'' @ day @ ''.md'';
          fs' = fs\<lparr>history := history fs @ [ReportWrite filename report]\<rparr>
      in case reports_write fs of
           Written \<Rightarrow> fs'\<lparr>reports := (reports fs)(filename \<mapsto> report)\<rparr>
         | OpenRaises \<Rightarrow> fs'
         | WriteRaises k \<Rightarrow> fs'\<lparr>reports := (reports fs)(filename \<mapsto> take k report)\<rparr>)"

text \<open>
  The clock as one run reads it: at lines 60 and 75 or 82 (the window), at line 299
  (the header of the report, formatted), at line 332 (the day of the file name) and at
  line 88 (the new marker).
\<close>

record readings =
  now_lookback :: int
  now_default :: int
  stamp_report :: string
  day_saved :: string
  now_advance :: int

text \<open>
  \<^verbatim>\<open>run\<close>: what the run raises (the \<^verbatim>\<open>except\<close> of line 366 logs it and raises it
  again) and the files after the run.
\<close>

definition run ::
  "pylib \<Rightarrow> web \<Rightarrow> (string \<Rightarrow> reply) \<Rightarrow> readings \<Rightarrow> files \<Rightarrow> (exn + unit) \<times> files" where
  "run L fetch api clock fs =
     (case get_last_run_timestamp L (now_lookback clock) (now_default clock) (marker fs) of
        Inl e \<Rightarrow> (Inl e, fs)
      | Inr since_date \<Rightarrow>
          (case collect_announcements L fetch api since_date (history fs) of
             (Inl e, past) \<Rightarrow> (Inl e, fs\<lparr>history := past\<rparr>)
           | (Inr announcements, past) \<Rightarrow>
               (let report = fst (generate_report (stamp_report clock) announcements);
                    fs1 = save_report (day_saved clock) report (fs\<lparr>history := past\<rparr>);
                    fs2 = update_timestamp (isoformat L (naive (now_advance clock))) fs1
                in (Inr (), fs2))))"

text \<open>Fixtures: a site without any page, the files of a first run, a clock.\<close>

definition web_down :: web where
  "web_down = (\<lambda>u. Inr (500, \<lambda>selector. []))"

definition api0 :: "string \<Rightarrow> reply" where
  "api0 = (\<lambda>prompt. Object \<lparr>should_include = Some True, score = Some 0.75,
     r_category = Some ''Product Launch'', r_summary = Some ''A new fitting line.'',
     r_implications = Some ''A wider range.''\<rparr>)"

definition files0 :: files where
  "files0 = \<lparr>marker = Content ''2026-10-28T12:00:00'', marker_write = Written,
     reports = Map.empty, reports_write = Written, history = []\<rparr>"

definition clock0 :: readings where
  "clock0 = \<lparr>now_lookback = 63929390400000000, now_default = 63929390400000000,
     stamp_report = ''2026-11-04 12:00:00'', day_saved = ''2026-11-04'',
     now_advance = 63929390400000000\<rparr>"

section \<open>Properties of the run window\<close>

lemma read_marker_Missing:
  "read_marker L now0 now1 Missing = Inr (naive (now1 - days 7))"
  by (simp add: read_marker_def)

lemma read_marker_Unreadable:
  "read_marker L now0 now1 Unreadable = Inl OSError"
  by (simp add: read_marker_def)

lemma read_marker_malformed:
  "fromisoformat L (strip s) = None \<Longrightarrow> read_marker L now0 now1 (Content s) = Inl ValueError"
  by (simp add: read_marker_def)

text \<open>
  Claim C4. With no marker file, with a marker file that cannot be read and with a
  content that \<^verbatim>\<open>fromisoformat\<close> refuses, \<^verbatim>\<open>get_last_run_timestamp\<close> returns (it
  does not raise) and the value is the clock minus 7 days.
\<close>

theorem C4_window_fails_soft:
  "get_last_run_timestamp L now0 now1 Missing = Inr (naive (now1 - days 7))
   \<and> get_last_run_timestamp L now0 now1 Unreadable = Inr (naive (now1 - days 7))
   \<and> (fromisoformat L (strip s) = None \<longrightarrow>
        get_last_run_timestamp L now0 now1 (Content s) = Inr (naive (now1 - days 7)))"
  by (simp add: get_last_run_timestamp_def read_marker_Missing read_marker_Unreadable
      read_marker_malformed)

lemma strip_garbage: "strip '' not a date\<newline>'' = ''not a date''"
  by (simp add: strip_def is_space_def)

theorem C4_window_fails_soft_witness:
  "fromisoformat lib0 (strip '' not a date\<newline>'') = None
   \<and> get_last_run_timestamp lib0 63929390400000000 63929390400000007 (Content '' not a date\<newline>'')
       = Inr (naive 63928785600000007)
   \<and> get_last_run_timestamp lib0 63929390400000000 63929390400000007 Missing
       = Inr (naive 63928785600000007)
   \<and> get_last_run_timestamp lib0 63929390400000000 63929390400000007 Unreadable
       = Inr (naive 63928785600000007)"
proof -
  have p: "fromisoformat lib0 (strip '' not a date\<newline>'') = None"
    by (simp add: strip_garbage lib0_def)
  have d: "63929390400000007 - days 7 = 63928785600000007"
    by (simp add: days_def)
  from C4_window_fails_soft [of lib0 63929390400000000 63929390400000007 "'' not a date\<newline>''"] p d
  show ?thesis by simp
qed

text \<open>
  A stored timestamp that carries a UTC offset cannot be ordered against the naive
  \<open>max_lookback\<close>: the comparison of line 68 raises \<^verbatim>\<open>TypeError\<close>, and the
  \<^verbatim>\<open>except\<close> branch answers with the 7-day default.
\<close>

lemma aware_marker_default:
  "fromisoformat L (strip s) = Some d \<Longrightarrow> utcoffset d = Some off \<Longrightarrow>
   get_last_run_timestamp L now0 now1 (Content s) = Inr (naive (now1 - days 7))"
  by (simp add: get_last_run_timestamp_def read_marker_def dt_less_def naive_def)

lemma naive_marker:
  "fromisoformat L (strip s) = Some d \<Longrightarrow> utcoffset d = None \<Longrightarrow>
   get_last_run_timestamp L now0 now1 (Content s) =
     Inr (if instant d < now0 - days 30 then naive (now0 - days 30) else d)"
  by (simp add: get_last_run_timestamp_def read_marker_def dt_less_def naive_def)

text \<open>
  Claim C3, as amended. For every stored timestamp without a UTC offset (the form
  \<^verbatim>\<open>update_timestamp\<close> writes): when it is older than the clock minus 30 days the
  result is exactly the clock minus 30 days, and otherwise the result is the stored
  value unchanged.
\<close>

theorem C3_window_clamped:
  assumes "fromisoformat L (strip s) = Some d" and "utcoffset d = None"
  shows "(instant d < now0 - days 30 \<longrightarrow>
            get_last_run_timestamp L now0 now1 (Content s) = Inr (naive (now0 - days 30)))
       \<and> (now0 - days 30 \<le> instant d \<longrightarrow>
            get_last_run_timestamp L now0 now1 (Content s) = Inr d)"
  using naive_marker [OF assms, of now0 now1] by simp

lemma strip_plain_2020: "strip ''2020-01-01T00:00:00'' = ''2020-01-01T00:00:00''"
  by (simp add: strip_def is_space_def)

lemma strip_plain_2026: "strip ''2026-10-28T12:00:00\<newline>'' = ''2026-10-28T12:00:00''"
  by (simp add: strip_def is_space_def)

lemma strip_aware_2020: "strip ''2020-01-01T00:00:00+00:00'' = ''2020-01-01T00:00:00+00:00''"
  by (simp add: strip_def is_space_def)

text \<open>
  The clock reads 2026-11-04T12:00:00. A marker of 2020-01-01 is clamped to
  2026-10-05T12:00:00; a marker of 2026-10-28T12:00:00 is returned as it is.
\<close>

theorem C3_window_clamped_witness:
  "get_last_run_timestamp lib0 63929390400000000 63929390400000007 (Content ''2020-01-01T00:00:00'')
     = Inr (naive 63926798400000000)
   \<and> get_last_run_timestamp lib0 63929390400000000 63929390400000007
         (Content ''2026-10-28T12:00:00\<newline>'')
     = Inr (naive 63928785600000000)"
proof -
  have a: "fromisoformat lib0 (strip ''2020-01-01T00:00:00'') = Some (naive 63713433600000000)"
    by (simp add: strip_plain_2020 lib0_def)
  have b: "fromisoformat lib0 (strip ''2026-10-28T12:00:00\<newline>'') = Some (naive 63928785600000000)"
    by (simp add: strip_plain_2026 lib0_def)
  have n: "utcoffset (naive t) = None" "instant (naive t) = t" for t
    by (simp_all add: naive_def)
  have d: "63929390400000000 - days 30 = 63926798400000000"
    by (simp add: days_def)
  from C3_window_clamped [OF a n(1), of 63929390400000000 63929390400000007]
       C3_window_clamped [OF b n(1), of 63929390400000000 63929390400000007]
  show ?thesis by (simp add: n d)
qed

text \<open>
  Claim C3 as it is written fails on a stored timestamp with a UTC offset: the marker
  \<^verbatim>\<open>2020-01-01T00:00:00+00:00\<close> is almost seven years older than the clock
  (2026-11-04T12:00:00), and the result is the clock minus 7 days, not the clock minus
  30 days.
\<close>

theorem C3_aware_marker_counterexample:
  "fromisoformat lib0 (strip ''2020-01-01T00:00:00+00:00'')
     = Some \<lparr>instant = 63713433600000000, utcoffset = Some 0\<rparr>
   \<and> 63713433600000000 - 0 < 63929390400000000 - days 30
   \<and> get_last_run_timestamp lib0 63929390400000000 63929390400000007
         (Content ''2020-01-01T00:00:00+00:00'')
       = Inr (naive (63929390400000007 - days 7))
   \<and> get_last_run_timestamp lib0 63929390400000000 63929390400000007
         (Content ''2020-01-01T00:00:00+00:00'')
       \<noteq> Inr (naive (63929390400000000 - days 30))"
proof -
  have a: "fromisoformat lib0 (strip ''2020-01-01T00:00:00+00:00'')
     = Some \<lparr>instant = 63713433600000000, utcoffset = Some 0\<rparr>"
    by (simp add: strip_aware_2020 lib0_def)
  have r: "get_last_run_timestamp lib0 63929390400000000 63929390400000007
         (Content ''2020-01-01T00:00:00+00:00'') = Inr (naive (63929390400000007 - days 7))"
    by (rule aware_marker_default [OF a]) simp
  show ?thesis
    by (simp add: a r) (simp add: days_def naive_def)
qed

text \<open>The white space of \<^verbatim>\<open>strip\<close> includes the code points 133 and 160.\<close>

lemma strip_latin1_space: "strip [char_of (160 :: nat), CHR ''x'', char_of (133 :: nat)] = ''x''"
  by code_simp

section \<open>Properties of the report\<close>

subsection \<open>The sort\<close>

lemma mset_py_sort_reverse: "mset (py_sort_reverse k xs) = mset xs"
  by (simp add: py_sort_reverse_def)

lemma length_py_sort_reverse: "length (py_sort_reverse k xs) = length xs"
  by (simp add: py_sort_reverse_def)

lemma sorted_py_sort_reverse: "sorted_wrt (\<lambda>a b. k b \<le> k a) (py_sort_reverse k xs)"
proof -
  have "sorted (map k (sort_key k (rev xs)))"
    by (rule sorted_sort_key)
  then have "sorted_wrt (\<lambda>a b. k a \<le> k b) (sort_key k (rev xs))"
    by (simp add: sorted_map)
  then show ?thesis
    by (simp add: py_sort_reverse_def sorted_wrt_rev)
qed

lemma py_sort_reverse_id:
  assumes "sorted_wrt (\<lambda>a b. k b \<le> k a) xs"
  shows "py_sort_reverse k xs = xs"
proof -
  from assms have "sorted (map k (rev xs))"
    by (simp add: sorted_map sorted_wrt_rev)
  then have "sort_key k (rev xs) = rev xs"
    by (rule sort_key_id_if_sorted)
  then show ?thesis
    by (simp add: py_sort_reverse_def)
qed

lemma py_sort_reverse_fixed:
  "(py_sort_reverse k xs = xs) = sorted_wrt (\<lambda>a b. k b \<le> k a) xs"
  using py_sort_reverse_id [of k xs] sorted_py_sort_reverse [of k xs] by auto

lemma py_sort_reverse_twice:
  "py_sort_reverse k (py_sort_reverse k xs) = py_sort_reverse k xs"
  by (rule py_sort_reverse_id) (rule sorted_py_sort_reverse)

lemma py_sort_reverse_Nil_iff: "(py_sort_reverse k xs = []) = (xs = [])"
  using length_py_sort_reverse [of k xs] by (metis length_0_conv)

subsection \<open>The dictionary of companies\<close>

lemma dict_append_new:
  "company a \<notin> fst ` set d \<Longrightarrow> dict_append d a = d @ [(company a, [a])]"
  by (induction d a rule: dict_append.induct) auto

lemma dict_append_last:
  "company a \<notin> fst ` set d \<Longrightarrow>
   dict_append (d @ [(company a, as)]) a = d @ [(company a, as @ [a])]"
  by (induction d a rule: dict_append.induct) auto

lemma group_by_company_snoc:
  "group_by_company (xs @ [x]) = dict_append (group_by_company xs) x"
  by (simp add: group_by_company_def)

lemma sorted_wrt_concat_part:
  "sorted_wrt R (concat xss) \<Longrightarrow> xs \<in> set xss \<Longrightarrow> sorted_wrt R xs"
  by (induction xss) (auto simp: sorted_wrt_append)

lemma grouped_step:
  assumes g: "grouped xs g" and le: "\<forall>y \<in> set xs. company x \<le> company y"
  shows "grouped (xs @ [x]) (dict_append g x)"
proof (cases g rule: rev_cases)
  case Nil
  with g have "xs = []" by (simp add: grouped_def)
  with Nil show ?thesis by (simp add: grouped_def)
next
  case (snoc d p)
  obtain c as where p: "p = (c, as)" by (cases p)
  from g snoc p have cat: "concat (map snd d) @ as = xs"
    and srt: "sorted_wrt (\<lambda>c c'. c' < c) (map fst d)"
    and lst: "\<forall>k \<in> fst ` set d. c < k"
    and hom: "\<forall>(c, as) \<in> set d. as \<noteq> [] \<and> (\<forall>a \<in> set as. company a = c)"
    and as: "as \<noteq> []" "\<forall>a \<in> set as. company a = c"
    by (auto simp: grouped_def sorted_wrt_append)
  from as obtain a where "a \<in> set as" "company a = c"
    by (cases as) auto
  with cat le have xc: "company x \<le> c" by auto
  show ?thesis
  proof (cases "company x = c")
    case True
    with lst have "company x \<notin> fst ` set d" by auto
    then have "dict_append g x = d @ [(c, as @ [x])]"
      using dict_append_last [of x d as] snoc p True by simp
    with cat srt lst hom as True show ?thesis
      by (auto simp: grouped_def sorted_wrt_append)
  next
    case False
    with xc have lt: "company x < c" by simp
    with lst have "\<forall>k \<in> fst ` set g. company x < k"
      using snoc p by auto
    then have new: "company x \<notin> fst ` set g" by auto
    then have "dict_append g x = g @ [(company x, [x])]"
      by (rule dict_append_new)
    moreover from lst lt have "\<forall>k \<in> fst ` set d. company x < k" by auto
    ultimately show ?thesis
      using cat srt lst hom as lt snoc p
      by (auto simp: grouped_def sorted_wrt_append)
  qed
qed

lemma grouped_group_by_company:
  "sorted_wrt (\<lambda>a b. company b \<le> company a) xs \<Longrightarrow> grouped xs (group_by_company xs)"
proof (induction xs rule: rev_induct)
  case Nil
  show ?case by (simp add: grouped_def group_by_company_def)
next
  case (snoc x xs)
  from snoc.prems have "sorted_wrt (\<lambda>a b. company b \<le> company a) xs"
    and "\<forall>y \<in> set xs. company x \<le> company y"
    by (auto simp: sorted_wrt_append)
  with snoc.IH show ?case
    by (simp add: group_by_company_snoc grouped_step)
qed

lemma report_key_company:
  "sorted_wrt (\<lambda>a b. report_key b \<le> report_key a) xs \<Longrightarrow>
   sorted_wrt (\<lambda>a b. company b \<le> company a) xs"
  by (erule sorted_wrt_mono_rel [rotated]) (auto simp: report_key_def)

lemma report_key_date:
  assumes "sorted_wrt (\<lambda>a b. report_key b \<le> report_key a) xs"
    and "\<forall>a \<in> set xs. company a = c"
  shows "sorted_wrt (\<lambda>a b. date b \<le> date a) xs"
  using assms(1)
  by (rule sorted_wrt_mono_rel [rotated]) (use assms(2) in \<open>auto simp: report_key_def\<close>)

subsection \<open>The text\<close>

lemma add_announcement_appends: "add_announcement r a = r @ add_announcement [] a"
  by (simp add: add_announcement_def)

lemma foldl_add_announcement:
  "foldl add_announcement r as = r @ concat (map (add_announcement []) as)"
proof (induction as arbitrary: r)
  case Nil
  show ?case by simp
next
  case (Cons a as)
  show ?case
    by (simp add: Cons.IH [of "add_announcement r a"])
       (simp add: add_announcement_appends [of r a])
qed

lemma add_company_appends: "add_company r p = r @ add_company [] p"
  by (cases p) (simp add: add_company_def foldl_add_announcement)

lemma foldl_add_company:
  "foldl add_company r g = r @ concat (map (add_company []) g)"
proof (induction g arbitrary: r)
  case Nil
  show ?case by simp
next
  case (Cons p g)
  show ?case
    by (simp add: Cons.IH [of "add_company r p"])
       (simp add: add_company_appends [of r p])
qed

lemma generate_report_nonempty:
  "announcements \<noteq> [] \<Longrightarrow>
   generate_report stamp announcements =
     (report_header stamp (length announcements)
        @ concat (map (add_company []) (group_by_company (py_sort_reverse report_key announcements))),
      py_sort_reverse report_key announcements)"
  by (simp add: generate_report_def Let_def foldl_add_company length_py_sort_reverse)

lemma generate_report_empty: "generate_report stamp [] = (empty_report, [])"
  by (simp add: generate_report_def)

subsection \<open>The claims about the report\<close>

lemma sorted_fixture:
  "py_sort_reverse report_key [ann_u1, ann_v1, ann_u2] = [ann_v1, ann_u2, ann_u1]"
  by (simp add: py_sort_reverse_def report_key_def ann_u1_def ann_u2_def ann_v1_def)

lemma grouped_fixture:
  "group_by_company [ann_v1, ann_u2, ann_u1] = [(''Viega'', [ann_v1]), (''Uponor'', [ann_u2, ann_u1])]"
  by (simp add: group_by_company_def ann_u1_def ann_u2_def ann_v1_def)

text \<open>
  The loops of lines 314 to 326 written out: the text they append to a report for a
  list of groups.
\<close>

lemma foldl_add_announcement_text:
  "foldl add_announcement r as
     = r @ concat (map (\<lambda>a.
         ''### '' @ title a @ ''\<newline>''
         @ ''**Date:** '' @ date a @ ''\<newline>''
         @ ''**Category:** '' @ category a @ ''\<newline>''
         @ ''**Importance Score:** '' @ format_1f (importance_score a) @ ''/1.0\<newline>''
         @ ''**Source:** '' @ source a @ ''\<newline>\<newline>''
         @ ''**Summary:** '' @ summary a @ ''\<newline>\<newline>''
         @ ''**Business Implications:** '' @ implications a @ ''\<newline>\<newline>''
         @ ''**Source Link:** '' @ url a @ ''\<newline>\<newline>''
         @ ''---\<newline>\<newline>'') as)"
  by (induction as arbitrary: r) (simp_all add: add_announcement_def)

lemma add_company_pair:
  "add_company r (c, as) = foldl add_announcement (r @ ''\<newline>## '' @ c @ ''\<newline>\<newline>'') as"
  by (simp add: add_company_def)

lemma foldl_add_company_text:
  "foldl add_company r g
     = r @ concat (map (\<lambda>(c, as).
         ''\<newline>## '' @ c @ ''\<newline>\<newline>''
         @ concat (map (\<lambda>a.
             ''### '' @ title a @ ''\<newline>''
             @ ''**Date:** '' @ date a @ ''\<newline>''
             @ ''**Category:** '' @ category a @ ''\<newline>''
             @ ''**Importance Score:** '' @ format_1f (importance_score a) @ ''/1.0\<newline>''
             @ ''**Source:** '' @ source a @ ''\<newline>\<newline>''
             @ ''**Summary:** '' @ summary a @ ''\<newline>\<newline>''
             @ ''**Business Implications:** '' @ implications a @ ''\<newline>\<newline>''
             @ ''**Source Link:** '' @ url a @ ''\<newline>\<newline>''
             @ ''---\<newline>\<newline>'') as)) g)"
proof (induction g arbitrary: r)
  case Nil
  show ?case by simp
next
  case (Cons p g)
  obtain c as where p: "p = (c, as)" by (cases p)
  show ?case
    by (simp add: Cons.IH p add_company_pair foldl_add_announcement_text)
qed

lemma generate_report_text:
  "announcements \<noteq> [] \<Longrightarrow>
   fst (generate_report stamp announcements)
     = ''# PEX Competitor Research Report\<newline>\<newline>Report generated on: '' @ stamp
       @ ''\<newline>\<newline>## Executive Summary\<newline>Found '' @ show_nat (length announcements)
       @ '' significant announcements from PEX manufacturers.\<newline>\<newline>''
       @ concat (map (\<lambda>(c, as).
           ''\<newline>## '' @ c @ ''\<newline>\<newline>''
           @ concat (map (\<lambda>a.
               ''### '' @ title a @ ''\<newline>''
               @ ''**Date:** '' @ date a @ ''\<newline>''
               @ ''**Category:** '' @ category a @ ''\<newline>''
               @ ''**Importance Score:** '' @ format_1f (importance_score a) @ ''/1.0\<newline>''
               @ ''**Source:** '' @ source a @ ''\<newline>\<newline>''
               @ ''**Summary:** '' @ summary a @ ''\<newline>\<newline>''
               @ ''**Business Implications:** '' @ implications a @ ''\<newline>\<newline>''
               @ ''**Source Link:** '' @ url a @ ''\<newline>\<newline>''
               @ ''---\<newline>\<newline>'') as))
           (group_by_company (py_sort_reverse report_key announcements)))"
  by (simp add: generate_report_def Let_def foldl_add_company_text length_py_sort_reverse
      report_header_def)

lemma show_nat_digit: "n < 10 \<Longrightarrow> show_nat n = [digit_char n]"
  by (simp add: show_nat.simps)

lemma digit_chars:
  "digit_char 0 = CHR ''0''" "digit_char 1 = CHR ''1''" "digit_char 2 = CHR ''2''"
  "digit_char 3 = CHR ''3''" "digit_char 4 = CHR ''4''" "digit_char 5 = CHR ''5''"
  "digit_char 6 = CHR ''6''" "digit_char 7 = CHR ''7''" "digit_char 8 = CHR ''8''"
  "digit_char 9 = CHR ''9''"
  by code_simp+

lemma show_nat_fixtures:
  "show_nat (Suc (Suc 0)) = ''2''" "show_nat (Suc (Suc (Suc 0))) = ''3''"
proof -
  have "show_nat 2 = ''2''" "show_nat 3 = ''3''"
    by (simp_all add: show_nat_digit digit_chars)
  then show "show_nat (Suc (Suc 0)) = ''2''" "show_nat (Suc (Suc (Suc 0))) = ''3''"
    by (simp_all only: numeral_2_eq_2 numeral_3_eq_3)
qed

lemma format_1f_fixtures:
  "format_1f (3 / 4) = ''0.8''" "format_1f (1 / 2) = ''0.5''" "format_1f (7 / 8) = ''0.9''"
  "format_1f (1 / 4) = ''0.2''"
  by (simp_all add: format_1f_def round_half_even_def Let_def show_nat_digit digit_chars)

lemma sorted_offset_fixture:
  "py_sort_reverse report_key [ann_z1, ann_z2] = [ann_z2, ann_z1]"
  by (simp add: py_sort_reverse_def report_key_def ann_z1_def ann_z2_def)

lemma grouped_offset_fixture:
  "group_by_company [ann_z2, ann_z1] = [(''Uponor'', [ann_z2, ann_z1])]"
  by (simp add: group_by_company_def ann_z1_def ann_z2_def)

text \<open>
  Claim C7, as amended. For a list that is not empty, the report is the header and
  then, for each group of \<open>companies\<close> in order, the heading of the company and the
  blocks of the announcements of the group in order, every field written as it is.
  The groups, read in order, are the list as sorted, which holds the announcements
  given; every group is not empty, holds announcements of its own company only, and
  holds them in descending order of the date text; the companies of the groups
  decrease strictly, so no company has two sections. Where the order of the date texts
  agrees with the order of the instants they stand for, every group is in descending
  order of the instants, the most recent first.
\<close>

theorem C7_report_sections:
  fixes announcements :: "announcement list" and instant_of :: "announcement \<Rightarrow> int"
  defines "companies \<equiv> group_by_company (py_sort_reverse report_key announcements)"
  assumes "announcements \<noteq> []"
  shows "fst (generate_report stamp announcements)
           = ''# PEX Competitor Research Report\<newline>\<newline>Report generated on: '' @ stamp
             @ ''\<newline>\<newline>## Executive Summary\<newline>Found '' @ show_nat (length announcements)
             @ '' significant announcements from PEX manufacturers.\<newline>\<newline>''
             @ concat (map (\<lambda>(c, as).
                 ''\<newline>## '' @ c @ ''\<newline>\<newline>''
                 @ concat (map (\<lambda>a.
                     ''### '' @ title a @ ''\<newline>''
                     @ ''**Date:** '' @ date a @ ''\<newline>''
                     @ ''**Category:** '' @ category a @ ''\<newline>''
                     @ ''**Importance Score:** '' @ format_1f (importance_score a) @ ''/1.0\<newline>''
                     @ ''**Source:** '' @ source a @ ''\<newline>\<newline>''
                     @ ''**Summary:** '' @ summary a @ ''\<newline>\<newline>''
                     @ ''**Business Implications:** '' @ implications a @ ''\<newline>\<newline>''
                     @ ''**Source Link:** '' @ url a @ ''\<newline>\<newline>''
                     @ ''---\<newline>\<newline>'') as))
                 companies)
       \<and> concat (map snd companies) = py_sort_reverse report_key announcements
       \<and> mset (concat (map snd companies)) = mset announcements
       \<and> (\<forall>(c, as) \<in> set companies.
             as \<noteq> [] \<and> (\<forall>a \<in> set as. company a = c)
             \<and> sorted_wrt (\<lambda>a b. date b \<le> date a) as)
       \<and> sorted_wrt (\<lambda>c c'. c' < c) (map fst companies)
       \<and> ((\<forall>a \<in> set announcements. \<forall>b \<in> set announcements.
               date a \<le> date b \<longrightarrow> instant_of a \<le> instant_of b)
            \<longrightarrow> (\<forall>(c, as) \<in> set companies.
                   sorted_wrt (\<lambda>a b. instant_of b \<le> instant_of a) as))"
proof -
  let ?s = "py_sort_reverse report_key announcements"
  have srt: "sorted_wrt (\<lambda>a b. report_key b \<le> report_key a) ?s"
    by (rule sorted_py_sort_reverse)
  then have g: "grouped ?s companies"
    unfolding companies_def by (intro grouped_group_by_company report_key_company)
  then have cat: "concat (map snd companies) = ?s"
    and keys: "sorted_wrt (\<lambda>c c'. c' < c) (map fst companies)"
    and hom: "\<forall>(c, as) \<in> set companies. as \<noteq> [] \<and> (\<forall>a \<in> set as. company a = c)"
    by (simp_all add: grouped_def)
  have dates: "sorted_wrt (\<lambda>a b. date b \<le> date a) as" if "(c, as) \<in> set companies" for c as
  proof -
    from that have "as \<in> set (map snd companies)" by force
    with srt cat have "sorted_wrt (\<lambda>a b. report_key b \<le> report_key a) as"
      by (metis sorted_wrt_concat_part)
    moreover from hom that have "\<forall>a \<in> set as. company a = c" by auto
    ultimately show ?thesis by (rule report_key_date)
  qed
  have part: "set as \<subseteq> set announcements" if "(c, as) \<in> set companies" for c as
  proof -
    from that have "set as \<subseteq> set (concat (map snd companies))" by force
    also have "\<dots> = set_mset (mset ?s)" by (simp add: cat)
    also have "\<dots> = set announcements" by (simp add: mset_py_sort_reverse)
    finally show ?thesis .
  qed
  have times: "sorted_wrt (\<lambda>a b. instant_of b \<le> instant_of a) as"
    if "(c, as) \<in> set companies"
      and agree: "\<forall>a \<in> set announcements. \<forall>b \<in> set announcements.
        date a \<le> date b \<longrightarrow> instant_of a \<le> instant_of b"
    for c as
    using dates [OF that(1)]
    by (rule sorted_wrt_mono_rel [rotated]) (use part [OF that(1)] agree in blast)
  have rep: "fst (generate_report stamp announcements)
           = ''# PEX Competitor Research Report\<newline>\<newline>Report generated on: '' @ stamp
             @ ''\<newline>\<newline>## Executive Summary\<newline>Found '' @ show_nat (length announcements)
             @ '' significant announcements from PEX manufacturers.\<newline>\<newline>''
             @ concat (map (\<lambda>(c, as).
                 ''\<newline>## '' @ c @ ''\<newline>\<newline>''
                 @ concat (map (\<lambda>a.
                     ''### '' @ title a @ ''\<newline>''
                     @ ''**Date:** '' @ date a @ ''\<newline>''
                     @ ''**Category:** '' @ category a @ ''\<newline>''
                     @ ''**Importance Score:** '' @ format_1f (importance_score a) @ ''/1.0\<newline>''
                     @ ''**Source:** '' @ source a @ ''\<newline>\<newline>''
                     @ ''**Summary:** '' @ summary a @ ''\<newline>\<newline>''
                     @ ''**Business Implications:** '' @ implications a @ ''\<newline>\<newline>''
                     @ ''**Source Link:** '' @ url a @ ''\<newline>\<newline>''
                     @ ''---\<newline>\<newline>'') as))
                 companies)"
    unfolding companies_def using assms(2) by (rule generate_report_text)
  have m: "mset (concat (map snd companies)) = mset announcements"
    by (simp add: cat mset_py_sort_reverse)
  from hom dates have secs: "\<forall>(c, as) \<in> set companies.
             as \<noteq> [] \<and> (\<forall>a \<in> set as. company a = c)
             \<and> sorted_wrt (\<lambda>a b. date b \<le> date a) as"
    by auto
  from times have chrono: "(\<forall>a \<in> set announcements. \<forall>b \<in> set announcements.
               date a \<le> date b \<longrightarrow> instant_of a \<le> instant_of b)
            \<longrightarrow> (\<forall>(c, as) \<in> set companies.
                   sorted_wrt (\<lambda>a b. instant_of b \<le> instant_of a) as)"
    by auto
  from rep cat m secs keys chrono show ?thesis
    by (intro conjI)
qed

text \<open>
  Three announcements of two companies, dated without offset, at instants that the
  date texts order as they are: the whole report, Viega before Uponor, and for Uponor
  the announcement of 3 November before that of 1 November.
\<close>

theorem C7_report_sections_witness:
  "[ann_u1, ann_v1, ann_u2] \<noteq> []
   \<and> fromisoformat lib0 (date ann_u1) = Some (naive 63929120400000000)
   \<and> fromisoformat lib0 (date ann_v1) = Some (naive 63929212200000000)
   \<and> fromisoformat lib0 (date ann_u2) = Some (naive 63929293200000000)
   \<and> group_by_company (py_sort_reverse report_key [ann_u1, ann_v1, ann_u2])
       = [(''Viega'', [ann_v1]), (''Uponor'', [ann_u2, ann_u1])]
   \<and> sorted_wrt
        (\<lambda>a b. (case fromisoformat lib0 (date b) of Some d \<Rightarrow> instant d | None \<Rightarrow> 0)
             \<le> (case fromisoformat lib0 (date a) of Some d \<Rightarrow> instant d | None \<Rightarrow> 0))
        [ann_u2, ann_u1]
   \<and> fst (generate_report ''2026-11-04 12:00:00'' [ann_u1, ann_v1, ann_u2])
     = ''# PEX Competitor Research Report\<newline>\<newline>'' @
       ''Report generated on: 2026-11-04 12:00:00\<newline>\<newline>'' @
       ''## Executive Summary\<newline>'' @
       ''Found 3 significant announcements from PEX manufacturers.\<newline>\<newline>\<newline>'' @
       ''## Viega\<newline>\<newline>'' @
       ''### Viega Opens New Plant\<newline>'' @
       ''**Date:** 2026-11-02T10:30:00\<newline>'' @
       ''**Category:** Other\<newline>'' @
       ''**Importance Score:** 0.9/1.0\<newline>'' @
       ''**Source:** website\<newline>\<newline>'' @
       ''**Summary:** A new plant.\<newline>\<newline>'' @
       ''**Business Implications:** More capacity.\<newline>\<newline>'' @
       ''**Source Link:** https://www.viega.com/news/plant\<newline>\<newline>'' @
       ''---\<newline>\<newline>\<newline>'' @
       ''## Uponor\<newline>\<newline>'' @
       ''### Uponor Reports Third Quarter\<newline>'' @
       ''**Date:** 2026-11-03T09:00:00\<newline>'' @
       ''**Category:** Financial Results\<newline>'' @
       ''**Importance Score:** 0.5/1.0\<newline>'' @
       ''**Source:** website\<newline>\<newline>'' @
       ''**Summary:** Quarterly figures.\<newline>\<newline>'' @
       ''**Business Implications:** Stable margins.\<newline>\<newline>'' @
       ''**Source Link:** https://www.uponor.com/news/q3\<newline>\<newline>'' @
       ''---\<newline>\<newline>'' @
       ''### Uponor Launches New PEX-A Fitting Line\<newline>'' @
       ''**Date:** 2026-11-01T09:00:00\<newline>'' @
       ''**Category:** Product Launch\<newline>'' @
       ''**Importance Score:** 0.8/1.0\<newline>'' @
       ''**Source:** website\<newline>\<newline>'' @
       ''**Summary:** A new fitting line.\<newline>\<newline>'' @
       ''**Business Implications:** A wider range.\<newline>\<newline>'' @
       ''**Source Link:** https://www.uponor.com/news/pex-a\<newline>\<newline>'' @
       ''---\<newline>\<newline>''"
proof -
  define inst :: "announcement \<Rightarrow> int"
    where "inst = (\<lambda>a. case fromisoformat lib0 (date a) of Some d \<Rightarrow> instant d | None \<Rightarrow> 0)"
  have ne: "[ann_u1, ann_v1, ann_u2] \<noteq> []" by simp
  have g: "group_by_company (py_sort_reverse report_key [ann_u1, ann_v1, ann_u2])
       = [(''Viega'', [ann_v1]), (''Uponor'', [ann_u2, ann_u1])]"
    by (simp add: sorted_fixture grouped_fixture)
  have t: "fromisoformat lib0 (date ann_u1) = Some (naive 63929120400000000)"
    "fromisoformat lib0 (date ann_v1) = Some (naive 63929212200000000)"
    "fromisoformat lib0 (date ann_u2) = Some (naive 63929293200000000)"
    by (simp_all add: lib0_def ann_u1_def ann_u2_def ann_v1_def)
  have i: "inst ann_u1 = 63929120400000000" "inst ann_v1 = 63929212200000000"
    "inst ann_u2 = 63929293200000000"
    by (simp_all add: inst_def t naive_def)
  have d: "\<not> date ann_v1 \<le> date ann_u1" "\<not> date ann_u2 \<le> date ann_u1"
    "\<not> date ann_u2 \<le> date ann_v1"
    by (simp_all add: ann_u1_def ann_u2_def ann_v1_def)
  have agree: "\<forall>a \<in> set [ann_u1, ann_v1, ann_u2]. \<forall>b \<in> set [ann_u1, ann_v1, ann_u2].
      date a \<le> date b \<longrightarrow> inst a \<le> inst b"
    by (simp add: i d)
  note c7 = C7_report_sections [OF ne, of "''2026-11-04 12:00:00''" inst, unfolded g]
  from c7 agree have "\<forall>(c, as) \<in> set [(''Viega'', [ann_v1]), (''Uponor'', [ann_u2, ann_u1])].
      sorted_wrt (\<lambda>a b. inst b \<le> inst a) as"
    by blast
  then have chrono: "sorted_wrt (\<lambda>a b. inst b \<le> inst a) [ann_u2, ann_u1]"
    by simp
  from c7 have "fst (generate_report ''2026-11-04 12:00:00'' [ann_u1, ann_v1, ann_u2])
     = ''# PEX Competitor Research Report\<newline>\<newline>'' @
       ''Report generated on: 2026-11-04 12:00:00\<newline>\<newline>'' @
       ''## Executive Summary\<newline>'' @
       ''Found 3 significant announcements from PEX manufacturers.\<newline>\<newline>\<newline>'' @
       ''## Viega\<newline>\<newline>'' @
       ''### Viega Opens New Plant\<newline>'' @
       ''**Date:** 2026-11-02T10:30:00\<newline>'' @
       ''**Category:** Other\<newline>'' @
       ''**Importance Score:** 0.9/1.0\<newline>'' @
       ''**Source:** website\<newline>\<newline>'' @
       ''**Summary:** A new plant.\<newline>\<newline>'' @
       ''**Business Implications:** More capacity.\<newline>\<newline>'' @
       ''**Source Link:** https://www.viega.com/news/plant\<newline>\<newline>'' @
       ''---\<newline>\<newline>\<newline>'' @
       ''## Uponor\<newline>\<newline>'' @
       ''### Uponor Reports Third Quarter\<newline>'' @
       ''**Date:** 2026-11-03T09:00:00\<newline>'' @
       ''**Category:** Financial Results\<newline>'' @
       ''**Importance Score:** 0.5/1.0\<newline>'' @
       ''**Source:** website\<newline>\<newline>'' @
       ''**Summary:** Quarterly figures.\<newline>\<newline>'' @
       ''**Business Implications:** Stable margins.\<newline>\<newline>'' @
       ''**Source Link:** https://www.uponor.com/news/q3\<newline>\<newline>'' @
       ''---\<newline>\<newline>'' @
       ''### Uponor Launches New PEX-A Fitting Line\<newline>'' @
       ''**Date:** 2026-11-01T09:00:00\<newline>'' @
       ''**Category:** Product Launch\<newline>'' @
       ''**Importance Score:** 0.8/1.0\<newline>'' @
       ''**Source:** website\<newline>\<newline>'' @
       ''**Summary:** A new fitting line.\<newline>\<newline>'' @
       ''**Business Implications:** A wider range.\<newline>\<newline>'' @
       ''**Source Link:** https://www.uponor.com/news/pex-a\<newline>\<newline>'' @
       ''---\<newline>\<newline>''"
    by (simp add: show_nat_fixtures)
       (simp add: ann_u1_def ann_u2_def ann_v1_def format_1f_fixtures)
  with ne g t chrono [unfolded inst_def] show ?thesis by simp
qed

text \<open>
  Claim C7 as it is written fails on dates that carry different UTC offsets. Of the two
  announcements of Uponor the one dated \<^verbatim>\<open>2026-11-01T10:00:00+02:00\<close> is the older (it
  is of 08:00 UTC, the other of 09:00 UTC), and it is the first of the section: the
  section is in descending order of the date text, not of the instants.
\<close>

theorem C7_offset_order_counterexample:
  "fromisoformat lib0 (date ann_z1) = Some \<lparr>instant = 63929120400000000, utcoffset = Some 0\<rparr>
   \<and> fromisoformat lib0 (date ann_z2)
       = Some \<lparr>instant = 63929124000000000, utcoffset = Some 7200000000\<rparr>
   \<and> dt_less \<lparr>instant = 63929124000000000, utcoffset = Some 7200000000\<rparr>
        \<lparr>instant = 63929120400000000, utcoffset = Some 0\<rparr> = Inr True
   \<and> snd (generate_report ''2026-11-04 12:00:00'' [ann_z1, ann_z2]) = [ann_z2, ann_z1]
   \<and> fst (generate_report ''2026-11-04 12:00:00'' [ann_z1, ann_z2])
     = ''# PEX Competitor Research Report\<newline>\<newline>'' @
       ''Report generated on: 2026-11-04 12:00:00\<newline>\<newline>'' @
       ''## Executive Summary\<newline>'' @
       ''Found 2 significant announcements from PEX manufacturers.\<newline>\<newline>\<newline>'' @
       ''## Uponor\<newline>\<newline>'' @
       ''### Uponor Earlier Note\<newline>'' @
       ''**Date:** 2026-11-01T10:00:00+02:00\<newline>'' @
       ''**Category:** Other\<newline>'' @
       ''**Importance Score:** 0.5/1.0\<newline>'' @
       ''**Source:** website\<newline>\<newline>'' @
       ''**Summary:** The earlier note.\<newline>\<newline>'' @
       ''**Business Implications:** None.\<newline>\<newline>'' @
       ''**Source Link:** https://www.uponor.com/news/earlier\<newline>\<newline>'' @
       ''---\<newline>\<newline>'' @
       ''### Uponor Morning Note\<newline>'' @
       ''**Date:** 2026-11-01T09:00:00+00:00\<newline>'' @
       ''**Category:** Other\<newline>'' @
       ''**Importance Score:** 0.5/1.0\<newline>'' @
       ''**Source:** website\<newline>\<newline>'' @
       ''**Summary:** The later note.\<newline>\<newline>'' @
       ''**Business Implications:** None.\<newline>\<newline>'' @
       ''**Source Link:** https://www.uponor.com/news/morning\<newline>\<newline>'' @
       ''---\<newline>\<newline>''"
proof -
  have ne: "[ann_z1, ann_z2] \<noteq> []" by simp
  have "fst (generate_report ''2026-11-04 12:00:00'' [ann_z1, ann_z2])
     = ''# PEX Competitor Research Report\<newline>\<newline>'' @
       ''Report generated on: 2026-11-04 12:00:00\<newline>\<newline>'' @
       ''## Executive Summary\<newline>'' @
       ''Found 2 significant announcements from PEX manufacturers.\<newline>\<newline>\<newline>'' @
       ''## Uponor\<newline>\<newline>'' @
       ''### Uponor Earlier Note\<newline>'' @
       ''**Date:** 2026-11-01T10:00:00+02:00\<newline>'' @
       ''**Category:** Other\<newline>'' @
       ''**Importance Score:** 0.5/1.0\<newline>'' @
       ''**Source:** website\<newline>\<newline>'' @
       ''**Summary:** The earlier note.\<newline>\<newline>'' @
       ''**Business Implications:** None.\<newline>\<newline>'' @
       ''**Source Link:** https://www.uponor.com/news/earlier\<newline>\<newline>'' @
       ''---\<newline>\<newline>'' @
       ''### Uponor Morning Note\<newline>'' @
       ''**Date:** 2026-11-01T09:00:00+00:00\<newline>'' @
       ''**Category:** Other\<newline>'' @
       ''**Importance Score:** 0.5/1.0\<newline>'' @
       ''**Source:** website\<newline>\<newline>'' @
       ''**Summary:** The later note.\<newline>\<newline>'' @
       ''**Business Implications:** None.\<newline>\<newline>'' @
       ''**Source Link:** https://www.uponor.com/news/morning\<newline>\<newline>'' @
       ''---\<newline>\<newline>''"
    unfolding generate_report_text [OF ne] sorted_offset_fixture grouped_offset_fixture
    by (simp add: show_nat_fixtures)
       (simp add: ann_z1_def ann_z2_def format_1f_fixtures)
  moreover have "snd (generate_report ''2026-11-04 12:00:00'' [ann_z1, ann_z2]) = [ann_z2, ann_z1]"
    by (simp add: generate_report_nonempty sorted_offset_fixture)
  moreover have "fromisoformat lib0 (date ann_z1)
       = Some \<lparr>instant = 63929120400000000, utcoffset = Some 0\<rparr>"
    "fromisoformat lib0 (date ann_z2)
       = Some \<lparr>instant = 63929124000000000, utcoffset = Some 7200000000\<rparr>"
    by (simp_all add: lib0_def ann_z1_def ann_z2_def)
  moreover have "dt_less \<lparr>instant = 63929124000000000, utcoffset = Some 7200000000\<rparr>
        \<lparr>instant = 63929120400000000, utcoffset = Some 0\<rparr> = Inr True"
    by (simp add: dt_less_def)
  ultimately show ?thesis by simp
qed

text \<open>
  Claim C8 (the code at the empty list). The report of an empty list is the fixed text,
  whatever the clock reads. The text names Uponor and Viega; after
  \<^verbatim>\<open>Report generated on:\<close> it holds the expression of the source, braces included,
  and no timestamp.
\<close>

theorem C8_empty_report_text:
  "generate_report stamp [] = (empty_report, [])
   \<and> sublist ''Uponor'' empty_report \<and> sublist ''Viega'' empty_report
   \<and> suffix ''Report generated on: {datetime.now().strftime('%Y-%m-%d %H:%M:%S')}\<newline>''
        empty_report"
proof -
  have "sublist ''Uponor'' empty_report"
    unfolding empty_report_def by code_simp
  moreover have "sublist ''Viega'' empty_report"
    unfolding empty_report_def by code_simp
  moreover have "suffix ''Report generated on: {datetime.now().strftime('%Y-%m-%d %H:%M:%S')}\<newline>''
        empty_report"
    unfolding empty_report_def by code_simp
  ultimately show ?thesis
    by (simp add: generate_report_empty)
qed

text \<open>
  Claim C9, as amended. Two builds that read the same generation timestamp give the
  same text, the second build working on the list as the first build left it; the
  report of the empty list is the same text at every reading of the clock.
\<close>

theorem C9_same_stamp_same_report:
  "fst (generate_report stamp (snd (generate_report stamp announcements)))
     = fst (generate_report stamp announcements)
   \<and> fst (generate_report stamp1 []) = fst (generate_report stamp2 [])"
proof (cases "announcements = []")
  case True
  then show ?thesis by (simp add: generate_report_empty)
next
  case False
  then have "py_sort_reverse report_key announcements \<noteq> []"
    by (simp add: py_sort_reverse_Nil_iff)
  with False show ?thesis
    by (simp add: generate_report_nonempty generate_report_empty py_sort_reverse_twice
        length_py_sort_reverse)
qed

text \<open>
  Claim C9 as it is written fails: the same list, built at two readings of the clock one
  second apart, gives two different texts.
\<close>

theorem C9_clock_counterexample:
  "fst (generate_report ''2026-11-04 12:00:00'' [ann_u1])
     \<noteq> fst (generate_report ''2026-11-04 12:00:01'' [ann_u1])"
  by (simp add: generate_report_nonempty report_header_def)

text \<open>
  Claim C10, as amended. For a list that is not empty, the list the caller holds after
  the call is the stable descending sort of the list given: the same elements, in
  descending order of (company, date). It differs from the list given exactly when the
  list given was not already in that order.
\<close>

theorem C10_list_sorted_in_place:
  assumes "announcements \<noteq> []"
  shows "snd (generate_report stamp announcements) = py_sort_reverse report_key announcements
       \<and> mset (snd (generate_report stamp announcements)) = mset announcements
       \<and> sorted_wrt (\<lambda>a b. report_key b \<le> report_key a) (snd (generate_report stamp announcements))
       \<and> (snd (generate_report stamp announcements) \<noteq> announcements)
           = (\<not> sorted_wrt (\<lambda>a b. report_key b \<le> report_key a) announcements)"
  using assms
  by (simp add: generate_report_nonempty mset_py_sort_reverse sorted_py_sort_reverse
      py_sort_reverse_fixed)

theorem C10_list_sorted_in_place_witness:
  "[ann_u1, ann_v1, ann_u2] \<noteq> []
   \<and> snd (generate_report ''2026-11-04 12:00:00'' [ann_u1, ann_v1, ann_u2]) = [ann_v1, ann_u2, ann_u1]
   \<and> snd (generate_report ''2026-11-04 12:00:00'' [ann_u1, ann_v1, ann_u2]) \<noteq> [ann_u1, ann_v1, ann_u2]"
proof -
  have ne: "[ann_u1, ann_v1, ann_u2] \<noteq> []" by simp
  have "ann_v1 \<noteq> ann_u1" by (simp add: ann_u1_def ann_v1_def)
  with C10_list_sorted_in_place [OF ne, of "''2026-11-04 12:00:00''"] show ?thesis
    by (simp add: sorted_fixture)
qed

text \<open>
  Claim C10 as it is written fails on a list that is already in order: a list of one
  announcement is left as it was.
\<close>

theorem C10_single_counterexample:
  "[ann_u1] \<noteq> [] \<and> snd (generate_report ''2026-11-04 12:00:00'' [ann_u1]) = [ann_u1]"
  by (simp add: generate_report_nonempty py_sort_reverse_def)

section \<open>Properties of the extractor\<close>

lemma dt_ge_not_less: "dt_ge a b = Inr True \<Longrightarrow> dt_less a b = Inr False"
  by (auto simp: dt_ge_def dt_less_def split: option.splits)

lemma dt_ge_refl: "dt_ge a a = Inr True"
  by (simp add: dt_ge_def split: option.splits)

lemma extract_article_Some:
  assumes "extract_article L base_url news_url company_name since_date article = Inr (Some r)"
  shows "date r = isoformat L (resolve_date L article)
       \<and> dt_ge (resolve_date L article) since_date = Inr True"
  using assms
  by (auto simp: extract_article_def Let_def split: option.splits sum.splits if_splits)

lemma extract_article_edge:
  assumes "heading article = Some t" and "resolve_date L article = since_date"
  shows "\<exists>r. extract_article L base_url news_url company_name since_date article = Inr (Some r)
           \<and> date r = isoformat L since_date"
  using assms by (simp add: extract_article_def Let_def dt_ge_refl)

lemma scan_articles_snoc:
  "scan_articles L base_url news_url company_name since_date (articles @ [article]) acc =
     (case extract_article L base_url news_url company_name since_date article of
        Inr (Some r) \<Rightarrow> scan_articles L base_url news_url company_name since_date articles acc @ [r]
      | Inr None \<Rightarrow> scan_articles L base_url news_url company_name since_date articles acc
      | Inl e \<Rightarrow> scan_articles L base_url news_url company_name since_date articles acc)"
  by (simp add: scan_articles_def split: sum.splits option.splits)

lemma set_scan_articles:
  "set (scan_articles L base_url news_url company_name since_date articles acc) =
     set acc \<union> {r. \<exists>article \<in> set articles.
        extract_article L base_url news_url company_name since_date article = Inr (Some r)}"
proof (induction articles rule: rev_induct)
  case Nil
  show ?case by (simp add: scan_articles_def)
next
  case (snoc article articles)
  show ?case
    by (auto simp: scan_articles_snoc snoc.IH split: sum.splits option.splits)
qed

lemma set_scan_selectors:
  "r \<in> set (scan_selectors L base_url news_url company_name since_date soup selectors acc) \<Longrightarrow>
   r \<in> set acc \<or> (\<exists>selector \<in> set selectors. \<exists>article \<in> set (soup selector).
      extract_article L base_url news_url company_name since_date article = Inr (Some r))"
proof (induction selectors arbitrary: acc)
  case Nil
  then show ?case by simp
next
  case (Cons selector selectors)
  show ?case
  proof (cases "soup selector = []")
    case True
    with Cons.prems have
      "r \<in> set (scan_selectors L base_url news_url company_name since_date soup selectors acc)"
      by (simp add: scan_articles_def)
    from Cons.IH [OF this] show ?thesis by auto
  next
    case False
    with Cons.prems show ?thesis
      by (auto simp: set_scan_articles)
  qed
qed

lemma set_try_paths:
  "r \<in> set (fst (try_paths L fetch base_url company_name since_date paths (acc, fetched))) \<Longrightarrow>
   r \<in> set acc \<or> (\<exists>path article.
      extract_article L base_url (base_url @ path) company_name since_date article = Inr (Some r))"
proof (induction paths arbitrary: acc fetched)
  case Nil
  then show ?case by simp
next
  case (Cons path paths)
  show ?case
  proof (cases "fetch (base_url @ path)")
    case (Inl e)
    with Cons.prems Cons.IH [of acc "fetched @ [base_url @ path]"] show ?thesis
      by (auto simp: Let_def split: if_splits)
  next
    case (Inr p)
    obtain status_code soup where p: "p = (status_code, soup)" by (cases p)
    let ?acc' = "scan_selectors L base_url (base_url @ path) company_name since_date soup
        article_selectors acc"
    have step: "r \<in> set ?acc' \<Longrightarrow> ?thesis"
      using set_scan_selectors [of r L base_url "base_url @ path" company_name since_date soup
          article_selectors acc]
      by blast
    show ?thesis
    proof (cases "status_code = 200")
      case False
      with Cons.prems Inr p Cons.IH [of acc "fetched @ [base_url @ path]"] show ?thesis
        by simp
    next
      case True
      show ?thesis
      proof (cases "?acc' = []")
        case False
        with Cons.prems Inr p True have "r \<in> set ?acc'" by (simp add: Let_def)
        then show ?thesis by (rule step)
      next
        case e: True
        with Cons.prems Inr p True have
          "r \<in> set (fst (try_paths L fetch base_url company_name since_date paths
              (?acc', fetched @ [base_url @ path])))"
          by (simp add: Let_def)
        from Cons.IH [OF this] e show ?thesis by simp
      qed
    qed
  qed
qed

lemma try_paths_fetched:
  "snd (try_paths L fetch base_url company_name since_date paths ([], fetched)) =
     fetched @ map ((@) base_url)
       (takeWhile (\<lambda>p. \<not> ends_trial L fetch base_url company_name since_date p) paths
        @ take 1 (dropWhile (\<lambda>p. \<not> ends_trial L fetch base_url company_name since_date p) paths))"
proof (induction paths arbitrary: fetched)
  case Nil
  show ?case by simp
next
  case (Cons path paths)
  show ?case
  proof (cases "fetch (base_url @ path)")
    case (Inl e)
    then show ?thesis
      by (simp add: Cons.IH ends_trial_def page_candidates_def)
  next
    case (Inr p)
    obtain status_code soup where p: "p = (status_code, soup)" by (cases p)
    with Inr show ?thesis
      by (simp add: Cons.IH ends_trial_def page_candidates_def Let_def)
  qed
qed

lemma take_one_prefix: "prefix (takeWhile P xs @ take 1 (dropWhile P xs)) xs"
proof -
  have "prefix (takeWhile P xs @ take 1 (dropWhile P xs)) (takeWhile P xs @ dropWhile P xs)"
    by (subst same_prefix_prefix) (rule take_is_prefix)
  then show ?thesis by (simp only: takeWhile_dropWhile_id)
qed

lemma try_paths_candidates:
  "fst (try_paths L fetch base_url company_name since_date paths ([], fetched)) =
     (case dropWhile (\<lambda>p. \<not> ends_trial L fetch base_url company_name since_date p) paths of
        [] \<Rightarrow> []
      | p # ps \<Rightarrow> page_candidates L fetch base_url company_name since_date p)"
proof (induction paths arbitrary: fetched)
  case Nil
  show ?case by simp
next
  case (Cons path paths)
  show ?case
  proof (cases "fetch (base_url @ path)")
    case (Inl e)
    then show ?thesis
      by (simp add: Cons.IH ends_trial_def page_candidates_def)
  next
    case (Inr p)
    obtain status_code soup where p: "p = (status_code, soup)" by (cases p)
    with Inr show ?thesis
      by (simp add: Cons.IH ends_trial_def page_candidates_def Let_def)
  qed
qed

lemma scan_articles_Nil:
  "scan_articles L base_url news_url company_name since_date [] acc = acc"
  by (simp add: scan_articles_def)

lemma scan_selectors_first:
  assumes "\<forall>s \<in> set before. soup s = []" and "soup selector \<noteq> []"
  shows "scan_selectors L base_url news_url company_name since_date soup
           (before @ selector # after) acc
         = scan_articles L base_url news_url company_name since_date (soup selector) acc"
  using assms by (induction before) (simp_all add: scan_articles_Nil)

lemma dropWhile_first:
  assumes "\<forall>q \<in> set before. P q" and "\<not> P x"
  shows "dropWhile P (before @ x # after) = x # after"
  using assms by (induction before) simp_all

text \<open>
  A candidate dated at the start of the window is in the output, when its element is
  matched by the first selector that matches anything on the page of the first path
  at which the trial ends.
\<close>

lemma edge_candidate_retained:
  assumes paths: "news_paths = paths_before @ path # paths_after"
    and reached: "\<forall>q \<in> set paths_before. \<not> ends_trial L fetch base_url company_name since_date q"
    and page: "fetch (base_url @ path) = Inr (200, soup)"
    and sels: "article_selectors = sels_before @ selector # sels_after"
    and first: "\<forall>s \<in> set sels_before. soup s = []"
    and art: "article \<in> set (soup selector)"
    and head: "heading article = Some t"
    and edge: "resolve_date L article = since_date"
  shows "\<exists>r \<in> set (fst (scrape_website_news L fetch base_url company_name since_date)).
           extract_article L base_url (base_url @ path) company_name since_date article = Inr (Some r)
           \<and> date r = isoformat L since_date"
proof -
  from extract_article_edge [OF head edge] obtain r where
    r: "extract_article L base_url (base_url @ path) company_name since_date article = Inr (Some r)"
    and d: "date r = isoformat L since_date"
    by blast
  from art have ne: "soup selector \<noteq> []" by auto
  have "page_candidates L fetch base_url company_name since_date path
      = scan_articles L base_url (base_url @ path) company_name since_date (soup selector) []"
    by (simp add: page_candidates_def page sels scan_selectors_first [OF first ne])
  with art r have mem: "r \<in> set (page_candidates L fetch base_url company_name since_date path)"
    by (auto simp: set_scan_articles)
  then have "ends_trial L fetch base_url company_name since_date path"
    by (auto simp: ends_trial_def)
  then have "dropWhile (\<lambda>p. \<not> ends_trial L fetch base_url company_name since_date p) news_paths
      = path # paths_after"
    unfolding paths by (intro dropWhile_first) (use reached in auto)
  then have "fst (scrape_website_news L fetch base_url company_name since_date)
      = page_candidates L fetch base_url company_name since_date path"
    by (simp add: scrape_website_news_def try_paths_candidates)
  with mem r d show ?thesis by auto
qed

text \<open>
  Claim C5. Every candidate of the output comes from an element whose resolved date
  is at or after \<open>since_date\<close> (so not before it), and carries that date as its
  ISO text. A candidate whose resolved date equals \<open>since_date\<close> is retained.
\<close>

theorem C5_window_cutoff:
  "(\<forall>r \<in> set (fst (scrape_website_news L fetch base_url company_name since_date)).
      \<exists>path article.
        extract_article L base_url (base_url @ path) company_name since_date article = Inr (Some r)
        \<and> date r = isoformat L (resolve_date L article)
        \<and> dt_ge (resolve_date L article) since_date = Inr True
        \<and> dt_less (resolve_date L article) since_date = Inr False)
   \<and> (news_paths = paths_before @ path # paths_after
        \<and> (\<forall>q \<in> set paths_before. \<not> ends_trial L fetch base_url company_name since_date q)
        \<and> fetch (base_url @ path) = Inr (200, soup)
        \<and> article_selectors = sels_before @ selector # sels_after
        \<and> (\<forall>s \<in> set sels_before. soup s = [])
        \<and> article \<in> set (soup selector)
        \<and> heading article = Some t
        \<and> resolve_date L article = since_date
      \<longrightarrow> (\<exists>r \<in> set (fst (scrape_website_news L fetch base_url company_name since_date)).
             extract_article L base_url (base_url @ path) company_name since_date article = Inr (Some r)
             \<and> date r = isoformat L since_date))"
proof (intro conjI ballI impI)
  fix r
  assume "r \<in> set (fst (scrape_website_news L fetch base_url company_name since_date))"
  then obtain path article where
    r: "extract_article L base_url (base_url @ path) company_name since_date article = Inr (Some r)"
    using set_try_paths [of r L fetch base_url company_name since_date news_paths "[]" "[]"]
    by (auto simp: scrape_website_news_def)
  from extract_article_Some [OF r] dt_ge_not_less r
  show "\<exists>path article.
        extract_article L base_url (base_url @ path) company_name since_date article = Inr (Some r)
        \<and> date r = isoformat L (resolve_date L article)
        \<and> dt_ge (resolve_date L article) since_date = Inr True
        \<and> dt_less (resolve_date L article) since_date = Inr False"
    by blast
next
  assume "news_paths = paths_before @ path # paths_after
        \<and> (\<forall>q \<in> set paths_before. \<not> ends_trial L fetch base_url company_name since_date q)
        \<and> fetch (base_url @ path) = Inr (200, soup)
        \<and> article_selectors = sels_before @ selector # sels_after
        \<and> (\<forall>s \<in> set sels_before. soup s = [])
        \<and> article \<in> set (soup selector)
        \<and> heading article = Some t
        \<and> resolve_date L article = since_date"
  then show "\<exists>r \<in> set (fst (scrape_website_news L fetch base_url company_name since_date)).
             extract_article L base_url (base_url @ path) company_name since_date article = Inr (Some r)
             \<and> date r = isoformat L since_date"
    using edge_candidate_retained [of paths_before path paths_after L fetch base_url company_name
        since_date soup sels_before selector sels_after article t]
    by blast
qed

text \<open>
  Claim C6, as amended. The addresses fetched are the site followed by each path, in
  the fixed order, up to and including the first path at which the trial ends: the
  first whose page gives at least one candidate, or whose fetch raises something other
  than a \<^verbatim>\<open>RequestException\<close>. No later path is fetched, and the candidates returned
  are those of that page.
\<close>

theorem C6_first_yielding_path:
  "snd (scrape_website_news L fetch base_url company_name since_date)
     = map ((@) base_url)
         (takeWhile (\<lambda>p. \<not> ends_trial L fetch base_url company_name since_date p) news_paths
          @ take 1 (dropWhile (\<lambda>p. \<not> ends_trial L fetch base_url company_name since_date p) news_paths))
   \<and> prefix (snd (scrape_website_news L fetch base_url company_name since_date))
       (map ((@) base_url) news_paths)
   \<and> fst (scrape_website_news L fetch base_url company_name since_date)
       = (case dropWhile (\<lambda>p. \<not> ends_trial L fetch base_url company_name since_date p) news_paths of
            [] \<Rightarrow> []
          | p # ps \<Rightarrow> page_candidates L fetch base_url company_name since_date p)"
proof -
  have a: "snd (scrape_website_news L fetch base_url company_name since_date)
     = map ((@) base_url)
         (takeWhile (\<lambda>p. \<not> ends_trial L fetch base_url company_name since_date p) news_paths
          @ take 1 (dropWhile (\<lambda>p. \<not> ends_trial L fetch base_url company_name since_date p) news_paths))"
    using try_paths_fetched [of L fetch base_url company_name since_date news_paths "[]"]
    by (simp add: scrape_website_news_def)
  have b: "prefix (snd (scrape_website_news L fetch base_url company_name since_date))
       (map ((@) base_url) news_paths)"
    unfolding a by (intro map_mono_prefix take_one_prefix)
  have c: "fst (scrape_website_news L fetch base_url company_name since_date)
       = (case dropWhile (\<lambda>p. \<not> ends_trial L fetch base_url company_name since_date p) news_paths of
            [] \<Rightarrow> []
          | p # ps \<Rightarrow> page_candidates L fetch base_url company_name since_date p)"
    by (simp add: scrape_website_news_def try_paths_candidates)
  from a b c show ?thesis by blast
qed

subsection \<open>The extractor on the fixtures\<close>

lemma resolve_date_fixtures:
  "resolve_date lib0 block_old = naive 63713433600000000"
  "resolve_date lib0 block_edge = since0"
  "resolve_date lib0 block_undated = naive 63929390400000000"
  "resolve_date lib0 block_zulu = \<lparr>instant = 63929120400000000, utcoffset = Some 0\<rparr>"
  by (simp_all add: resolve_date_def block_old_def block_edge_def block_undated_def
      block_zulu_def lib0_def replace_Z_def since0_def)

lemma strip_fixtures:
  "strip ''Old story'' = ''Old story''"
  "strip '' Viega Opens New Plant '' = ''Viega Opens New Plant''"
  "strip ''Viega at the fair'' = ''Viega at the fair''"
  "strip ''Viega Partners'' = ''Viega Partners''"
  by (simp_all add: strip_def is_space_def)

lemma block_fields:
  "heading block_old = Some ''Old story''"
  "heading block_edge = Some '' Viega Opens New Plant ''"
  "href block_edge = Some ''/press/plant''"
  "body block_edge = ''Viega Opens New Plant October 28, 2026''"
  "heading block_undated = Some ''Viega at the fair''"
  "href block_undated = None"
  "body block_undated = ''Viega at the fair''"
  "heading block_untitled = None"
  "heading block_zulu = Some ''Viega Partners''"
  by (simp_all add: block_old_def block_edge_def block_undated_def block_untitled_def
      block_zulu_def)

lemma dt_ge_fixtures:
  "dt_ge (naive 63713433600000000) since0 = Inr False"
  "dt_ge (naive 63929390400000000) since0 = Inr True"
  "dt_ge \<lparr>instant = 63929120400000000, utcoffset = Some 0\<rparr> since0 = Inl TypeError"
  by (simp_all add: dt_ge_def since0_def naive_def)

lemma extract_article_fixtures:
  "extract_article lib0 ''https://www.viega.com'' ''https://www.viega.com/press'' ''Viega'' since0
     block_old = Inr None"
  "extract_article lib0 ''https://www.viega.com'' ''https://www.viega.com/press'' ''Viega'' since0
     block_edge = Inr (Some cand_edge)"
  "extract_article lib0 ''https://www.viega.com'' ''https://www.viega.com/press'' ''Viega'' since0
     block_undated = Inr (Some cand_undated)"
  "extract_article lib0 ''https://www.viega.com'' ''https://www.viega.com/press'' ''Viega'' since0
     block_untitled = Inr None"
  "extract_article lib0 ''https://www.viega.com'' ''https://www.viega.com/press'' ''Viega'' since0
     block_zulu = Inl TypeError"
proof -
  have iso: "isoformat lib0 since0 = ''2026-10-28T12:00:00''"
    "isoformat lib0 (naive 63929390400000000) = ''2026-11-04T12:00:00''"
    by (simp_all add: lib0_def since0_def naive_def)
  show "extract_article lib0 ''https://www.viega.com'' ''https://www.viega.com/press'' ''Viega'' since0
     block_old = Inr None"
    by (simp add: extract_article_def Let_def block_fields resolve_date_fixtures dt_ge_fixtures)
  show "extract_article lib0 ''https://www.viega.com'' ''https://www.viega.com/press'' ''Viega'' since0
     block_edge = Inr (Some cand_edge)"
    by (simp add: extract_article_def Let_def block_fields resolve_date_fixtures dt_ge_refl
        strip_fixtures iso cand_edge_def)
  show "extract_article lib0 ''https://www.viega.com'' ''https://www.viega.com/press'' ''Viega'' since0
     block_undated = Inr (Some cand_undated)"
    by (simp add: extract_article_def Let_def block_fields resolve_date_fixtures dt_ge_fixtures
        strip_fixtures iso cand_undated_def)
  show "extract_article lib0 ''https://www.viega.com'' ''https://www.viega.com/press'' ''Viega'' since0
     block_untitled = Inr None"
    by (simp add: extract_article_def block_fields)
  show "extract_article lib0 ''https://www.viega.com'' ''https://www.viega.com/press'' ''Viega'' since0
     block_zulu = Inl TypeError"
    by (simp add: extract_article_def Let_def block_fields resolve_date_fixtures dt_ge_fixtures)
qed

lemma page_candidates_fixtures:
  "page_candidates lib0 web0 ''https://www.viega.com'' ''Viega'' since0 ''/news'' = []"
  "page_candidates lib0 web0 ''https://www.viega.com'' ''Viega'' since0 ''/press''
     = [cand_edge, cand_undated]"
  by (simp_all add: page_candidates_def web0_def article_selectors_def page0_def
      scan_articles_def extract_article_fixtures)

lemma ends_trial_fixtures:
  "\<not> ends_trial lib0 web0 ''https://www.viega.com'' ''Viega'' since0 ''/news''"
  "ends_trial lib0 web0 ''https://www.viega.com'' ''Viega'' since0 ''/press''"
  by (simp_all add: ends_trial_def page_candidates_fixtures) (simp add: web0_def)

theorem C5_window_cutoff_witness:
  "fst (scrape_website_news lib0 web0 ''https://www.viega.com'' ''Viega'' since0)
     = [cand_edge, cand_undated]
   \<and> dt_less (resolve_date lib0 block_old) since0 = Inr True
   \<and> resolve_date lib0 block_edge = since0
   \<and> (\<exists>r \<in> set (fst (scrape_website_news lib0 web0 ''https://www.viega.com'' ''Viega'' since0)).
        extract_article lib0 ''https://www.viega.com'' (''https://www.viega.com'' @ ''/press'')
          ''Viega'' since0 block_edge = Inr (Some r)
        \<and> date r = isoformat lib0 since0)"
proof -
  have hyps: "news_paths = [''/news''] @ ''/press'' # [''/press-releases'', ''/media'', ''/newsroom'', ''/media-center'']
      \<and> (\<forall>q \<in> set [''/news'']. \<not> ends_trial lib0 web0 ''https://www.viega.com'' ''Viega'' since0 q)
      \<and> web0 (''https://www.viega.com'' @ ''/press'') = Inr (200, page0)
      \<and> article_selectors = [''article''] @ ''.news-item'' #
           [''.press-release'', ''.media-item'', ''[class*=\"news\"]'', ''[class*=\"press\"]'']
      \<and> (\<forall>s \<in> set [''article'']. page0 s = [])
      \<and> block_edge \<in> set (page0 ''.news-item'')
      \<and> heading block_edge = Some '' Viega Opens New Plant ''
      \<and> resolve_date lib0 block_edge = since0"
    by (simp add: news_paths_def ends_trial_fixtures article_selectors_def resolve_date_fixtures)
       (simp add: web0_def page0_def block_edge_def)
  from C5_window_cutoff [of lib0 web0 "''https://www.viega.com''" "''Viega''" since0
      "[''/news'']" "''/press''" "[''/press-releases'', ''/media'', ''/newsroom'', ''/media-center'']"
      page0 "[''article'']" "''.news-item''"
      "[''.press-release'', ''.media-item'', ''[class*=\"news\"]'', ''[class*=\"press\"]'']"
      block_edge "'' Viega Opens New Plant ''"] hyps
  have kept: "\<exists>r \<in> set (fst (scrape_website_news lib0 web0 ''https://www.viega.com'' ''Viega'' since0)).
        extract_article lib0 ''https://www.viega.com'' (''https://www.viega.com'' @ ''/press'')
          ''Viega'' since0 block_edge = Inr (Some r)
        \<and> date r = isoformat lib0 since0"
    by blast
  have out: "fst (scrape_website_news lib0 web0 ''https://www.viega.com'' ''Viega'' since0)
     = [cand_edge, cand_undated]"
    unfolding scrape_website_news_def try_paths_candidates
    by (simp add: news_paths_def ends_trial_fixtures page_candidates_fixtures)
  have old: "dt_less (resolve_date lib0 block_old) since0 = Inr True"
    by (simp add: resolve_date_fixtures dt_less_def since0_def naive_def)
  from out old kept show ?thesis
    by (simp only: resolve_date_fixtures)
qed

theorem C6_first_yielding_path_witness:
  "snd (scrape_website_news lib0 web0 ''https://www.viega.com'' ''Viega'' since0)
     = [''https://www.viega.com/news'', ''https://www.viega.com/press'']
   \<and> \<not> ends_trial lib0 web0 ''https://www.viega.com'' ''Viega'' since0 ''/news''
   \<and> ends_trial lib0 web0 ''https://www.viega.com'' ''Viega'' since0 ''/press''"
  using C6_first_yielding_path [of lib0 web0 "''https://www.viega.com''" "''Viega''" since0]
  by (simp add: news_paths_def ends_trial_fixtures)

text \<open>
  Claim C6 as it is written fails: when \<^verbatim>\<open>/news\<close> answers with status 200 and a page
  on which no selector matches, the five later paths are fetched all the same.
\<close>

theorem C6_blank_page_counterexample:
  "map_sum id fst (web_blank ''https://www.viega.com/news'') = Inr 200
   \<and> snd (scrape_website_news lib0 web_blank ''https://www.viega.com'' ''Viega'' since0)
       = [''https://www.viega.com/news'', ''https://www.viega.com/press'',
          ''https://www.viega.com/press-releases'', ''https://www.viega.com/media'',
          ''https://www.viega.com/newsroom'', ''https://www.viega.com/media-center'']"
  by (simp add: web_blank_def scrape_website_news_def news_paths_def article_selectors_def
      scan_articles_def)

section \<open>Properties of the classifier step\<close>

lemma parse_format_spec_trailing:
  "rest \<noteq> [] \<Longrightarrow>
   parse_format_spec (CHR '' '' # CHR ''0'' # CHR ''.'' # CHR ''0'' # CHR '','' # rest) ty al
     = Inl ValueError"
  by (cases rest)
     (simp_all add: parse_format_spec_def is_alignment_token_def is_sign_element_def
        take_flag_def get_integer_def is_digit_def Let_def)

lemma format_str_trailing:
  "rest \<noteq> [] \<Longrightarrow>
   format_str v (CHR '' '' # CHR ''0'' # CHR ''.'' # CHR ''0'' # CHR '','' # rest) = Inl ValueError"
  by (simp add: format_str_def parse_format_spec_trailing)

lemma format_str_plain: "format_str v [] = Inr v"
  by (simp add: format_str_def)

lemma fstring_raises:
  "fstring parts = Inl e \<Longrightarrow> fstring (Lit s # parts) = Inl e"
  "fstring parts = Inl e \<Longrightarrow> fstring (Field v [] # parts) = Inl e"
  by (simp_all add: format_str_plain)

lemma prompt_raises: "fstring (prompt_parts announcement) = Inl ValueError"
  unfolding prompt_parts_def
  by (intro fstring_raises) (simp add: format_str_trailing)

text \<open>
  Claim C1 (the code at every candidate). Building the prompt raises \<^verbatim>\<open>ValueError\<close>
  before the classifier is called: for every candidate and every reply the method
  raises, and it constructs no announcement and returns no \<^verbatim>\<open>None\<close>.
\<close>

theorem C1_prompt_raises: "analyze_with_openai api announcement = Inl ValueError"
  by (simp add: analyze_with_openai_def prompt_raises)

text \<open>
  Lines 231 to 246 on their own do what the comment of line 231 says: for a reply
  that holds the three texts, an announcement is made exactly when
  \<^verbatim>\<open>should_include\<close> is true and the score is above 0.3; a score of 0.3 makes none.
\<close>

lemma make_announcement_iff:
  assumes "r_category result = Some c" "r_summary result = Some sm" "r_implications result = Some im"
  shows "(\<exists>a. make_announcement announcement result = Inr (Some a))
       = (should_include result = Some True \<and> (\<exists>x. score result = Some x \<and> 0.3 < x))"
  using assms by (auto simp: make_announcement_def split: option.splits)

lemma make_announcement_threshold:
  "score result = Some 0.3 \<Longrightarrow> make_announcement announcement result = Inr None"
  by (simp add: make_announcement_def)

lemma make_announcement_excluded:
  "should_include result = None \<or> should_include result = Some False \<Longrightarrow>
   make_announcement announcement result = Inr None"
  by (auto simp: make_announcement_def)

section \<open>Properties of the run\<close>

text \<open>
  Since the method raises at every candidate, a collection that returns has met no
  candidate, and returns the empty list.
\<close>

lemma analyze_each_returns:
  "analyze_each api raw_announcements all_announcements = Inr r \<Longrightarrow>
   raw_announcements = [] \<and> r = all_announcements"
  by (cases raw_announcements) (simp_all add: analyze_with_openai_def prompt_raises)

lemma collect_sites_returns:
  "fst (collect_sites L fetch api since_date name websites (all_announcements, past)) = Inr r \<Longrightarrow>
   r = all_announcements"
proof (induction websites arbitrary: all_announcements past)
  case Nil
  then show ?case by simp
next
  case (Cons website websites)
  then show ?case
    by (auto simp: Let_def split: sum.splits prod.splits dest: analyze_each_returns)
qed

lemma collect_companies_returns:
  "fst (collect_companies L fetch api since_date registry (all_announcements, past)) = Inr r \<Longrightarrow>
   r = all_announcements"
proof (induction registry arbitrary: all_announcements past)
  case Nil
  then show ?case by simp
next
  case (Cons p registry)
  obtain name websites where p: "p = (name, websites)" by (cases p)
  show ?case
  proof (cases "collect_sites L fetch api since_date name websites (all_announcements, past)")
    case (Pair res past')
    show ?thesis
    proof (cases res)
      case (Inl e)
      with Cons.prems p Pair show ?thesis by simp
    next
      case (Inr all')
      with Pair have "all' = all_announcements"
        using collect_sites_returns [of L fetch api since_date name websites all_announcements past all']
        by simp
      with Cons.prems p Pair Inr Cons.IH [of all_announcements past'] show ?thesis by simp
    qed
  qed
qed

lemma collect_announcements_returns:
  "fst (collect_announcements L fetch api since_date past) = Inr r \<Longrightarrow> r = []"
  unfolding collect_announcements_def by (rule collect_companies_returns)

text \<open>A collection adds fetches to the record of what was done, and nothing else.\<close>

lemma collect_sites_fetches:
  "\<exists>fetched. snd (collect_sites L fetch api since_date name websites (all_announcements, past))
     = past @ map Fetched fetched"
proof (induction websites arbitrary: all_announcements past)
  case Nil
  show ?case by (intro exI [of _ "[]"]) simp
next
  case (Cons website websites)
  obtain raw fetched where sc:
    "scrape_website_news L fetch website name since_date = (raw, fetched)"
    by (cases "scrape_website_news L fetch website name since_date")
  show ?case
  proof (cases "analyze_each api raw all_announcements")
    case (Inl e)
    with sc show ?thesis by auto
  next
    case (Inr all')
    from Cons.IH [of all' "past @ map Fetched fetched"] obtain more where
      "snd (collect_sites L fetch api since_date name websites (all', past @ map Fetched fetched))
         = (past @ map Fetched fetched) @ map Fetched more"
      by blast
    then have "snd (collect_sites L fetch api since_date name (website # websites)
        (all_announcements, past)) = past @ map Fetched (fetched @ more)"
      using sc Inr by simp
    then show ?thesis by blast
  qed
qed

lemma collect_companies_fetches:
  "\<exists>fetched. snd (collect_companies L fetch api since_date registry (all_announcements, past))
     = past @ map Fetched fetched"
proof (induction registry arbitrary: all_announcements past)
  case Nil
  show ?case by (intro exI [of _ "[]"]) simp
next
  case (Cons p registry)
  obtain name websites where p: "p = (name, websites)" by (cases p)
  obtain res past' where cs:
    "collect_sites L fetch api since_date name websites (all_announcements, past) = (res, past')"
    by (cases "collect_sites L fetch api since_date name websites (all_announcements, past)")
  from collect_sites_fetches [of L fetch api since_date name websites all_announcements past] cs
  obtain fetched where f: "past' = past @ map Fetched fetched" by auto
  show ?case
  proof (cases res)
    case (Inl e)
    with p cs f show ?thesis by auto
  next
    case (Inr all')
    from Cons.IH [of all' past'] obtain more where
      "snd (collect_companies L fetch api since_date registry (all', past'))
         = past' @ map Fetched more"
      by blast
    then have "snd (collect_companies L fetch api since_date (p # registry) (all_announcements, past))
        = past @ map Fetched (fetched @ more)"
      using p cs f Inr by simp
    then show ?thesis by blast
  qed
qed

lemma collect_announcements_fetches:
  "\<exists>fetched. snd (collect_announcements L fetch api since_date past) = past @ map Fetched fetched"
  unfolding collect_announcements_def by (rule collect_companies_fetches)

lemma save_report_fields:
  "marker (save_report day report fs) = marker fs"
  "marker_write (save_report day report fs) = marker_write fs"
  "history (save_report day report fs)
     = history fs @ [ReportWrite (''reports/competitor_report_'' @ day @ ''.md'') report]"
  by (simp_all add: save_report_def Let_def split: write_outcome.splits)

lemma update_timestamp_fields:
  "marker (update_timestamp now_text fs)
     = (case marker_write fs of
          Written \<Rightarrow> Content now_text
        | OpenRaises \<Rightarrow> marker fs
        | WriteRaises k \<Rightarrow> Content (take k now_text))"
  "reports (update_timestamp now_text fs) = reports fs"
  "history (update_timestamp now_text fs) = history fs @ [MarkerWrite now_text]"
  by (simp_all add: update_timestamp_def Let_def split: write_outcome.splits)

lemma run_raises:
  assumes "fst (run L fetch api clock fs) = Inl e"
  shows "marker (snd (run L fetch api clock fs)) = marker fs
       \<and> reports (snd (run L fetch api clock fs)) = reports fs
       \<and> (\<exists>fetched. history (snd (run L fetch api clock fs)) = history fs @ map Fetched fetched)"
proof (cases "get_last_run_timestamp L (now_lookback clock) (now_default clock) (marker fs)")
  case (Inl e')
  then have "snd (run L fetch api clock fs) = fs" by (simp add: run_def)
  then show ?thesis by (intro conjI exI [of _ "[]"]) simp_all
next
  case (Inr since_date)
  obtain res past where c:
    "collect_announcements L fetch api since_date (history fs) = (res, past)"
    by (cases "collect_announcements L fetch api since_date (history fs)")
  from collect_announcements_fetches [of L fetch api since_date "history fs"] c
  obtain fetched where f: "past = history fs @ map Fetched fetched" by auto
  show ?thesis
  proof (cases res)
    case (Inl e')
    with Inr c f show ?thesis by (auto simp: run_def)
  next
    case r: (Inr announcements)
    with assms Inr c show ?thesis by (simp add: run_def Let_def)
  qed
qed

lemma run_completes:
  assumes "fst (run L fetch api clock fs) = Inr ()"
  shows "\<exists>since_date announcements fetched.
       get_last_run_timestamp L (now_lookback clock) (now_default clock) (marker fs) = Inr since_date
       \<and> collect_announcements L fetch api since_date (history fs)
           = (Inr announcements, history fs @ map Fetched fetched)
       \<and> history (snd (run L fetch api clock fs))
           = history fs @ map Fetched fetched
             @ [ReportWrite (''reports/competitor_report_'' @ day_saved clock @ ''.md'')
                  (fst (generate_report (stamp_report clock) announcements)),
                MarkerWrite (isoformat L (naive (now_advance clock)))]"
    and "marker (snd (run L fetch api clock fs))
       = (case marker_write fs of
            Written \<Rightarrow> Content (isoformat L (naive (now_advance clock)))
          | OpenRaises \<Rightarrow> marker fs
          | WriteRaises k \<Rightarrow> Content (take k (isoformat L (naive (now_advance clock)))))"
proof -
  from assms obtain since_date where
    w: "get_last_run_timestamp L (now_lookback clock) (now_default clock) (marker fs) = Inr since_date"
    by (auto simp: run_def split: sum.splits)
  obtain res past where c:
    "collect_announcements L fetch api since_date (history fs) = (res, past)"
    by (cases "collect_announcements L fetch api since_date (history fs)")
  from collect_announcements_fetches [of L fetch api since_date "history fs"] c
  obtain fetched where f: "past = history fs @ map Fetched fetched" by auto
  from assms w c obtain announcements where r: "res = Inr announcements"
    by (cases res) (simp_all add: run_def)
  from w c r f have
    "history (snd (run L fetch api clock fs))
       = history fs @ map Fetched fetched
         @ [ReportWrite (''reports/competitor_report_'' @ day_saved clock @ ''.md'')
              (fst (generate_report (stamp_report clock) announcements)),
            MarkerWrite (isoformat L (naive (now_advance clock)))]"
    by (simp add: run_def Let_def update_timestamp_fields save_report_fields)
  with w c r f show "\<exists>since_date announcements fetched.
       get_last_run_timestamp L (now_lookback clock) (now_default clock) (marker fs) = Inr since_date
       \<and> collect_announcements L fetch api since_date (history fs)
           = (Inr announcements, history fs @ map Fetched fetched)
       \<and> history (snd (run L fetch api clock fs))
           = history fs @ map Fetched fetched
             @ [ReportWrite (''reports/competitor_report_'' @ day_saved clock @ ''.md'')
                  (fst (generate_report (stamp_report clock) announcements)),
                MarkerWrite (isoformat L (naive (now_advance clock)))]"
    by blast
  from w c r show "marker (snd (run L fetch api clock fs))
       = (case marker_write fs of
            Written \<Rightarrow> Content (isoformat L (naive (now_advance clock)))
          | OpenRaises \<Rightarrow> marker fs
          | WriteRaises k \<Rightarrow> Content (take k (isoformat L (naive (now_advance clock)))))"
    by (simp add: run_def Let_def update_timestamp_fields save_report_fields
        split: write_outcome.splits)
qed

text \<open>
  Claim C2, as amended. A run that raises leaves the marker and the reports as they
  were and has done nothing but fetches: no write of the marker is attempted. A run
  that completes has done, in this order, the fetches of the collection, one attempt to
  write the report built from the announcements collected, and one attempt to write
  the marker, which is the last thing it does. The marker then holds the clock of
  line 88 when that write succeeds; it is as it was when the file cannot be opened,
  and it holds the first characters of the new text, or none, when the write fails
  after the file was opened.
\<close>

theorem C2_window_advance:
  "(fst (run L fetch api clock fs) = Inl e \<longrightarrow>
      marker (snd (run L fetch api clock fs)) = marker fs
      \<and> reports (snd (run L fetch api clock fs)) = reports fs
      \<and> (\<exists>fetched. history (snd (run L fetch api clock fs)) = history fs @ map Fetched fetched))
   \<and> (fst (run L fetch api clock fs) = Inr () \<longrightarrow>
        (\<exists>since_date announcements fetched.
           get_last_run_timestamp L (now_lookback clock) (now_default clock) (marker fs)
             = Inr since_date
           \<and> collect_announcements L fetch api since_date (history fs)
               = (Inr announcements, history fs @ map Fetched fetched)
           \<and> history (snd (run L fetch api clock fs))
               = history fs @ map Fetched fetched
                 @ [ReportWrite (''reports/competitor_report_'' @ day_saved clock @ ''.md'')
                      (fst (generate_report (stamp_report clock) announcements)),
                    MarkerWrite (isoformat L (naive (now_advance clock)))])
        \<and> marker (snd (run L fetch api clock fs))
          = (case marker_write fs of
               Written \<Rightarrow> Content (isoformat L (naive (now_advance clock)))
             | OpenRaises \<Rightarrow> marker fs
             | WriteRaises k \<Rightarrow> Content (take k (isoformat L (naive (now_advance clock))))))"
  using run_raises [of L fetch api clock fs e] run_completes [of L fetch api clock fs]
  by blast

subsection \<open>The run on the fixtures\<close>

lemma scrape_fixture:
  "scrape_website_news lib0 web0 ''https://www.viega.com'' ''Viega'' since0
     = ([cand_edge, cand_undated], [''https://www.viega.com/news'', ''https://www.viega.com/press''])"
proof -
  have "fst (scrape_website_news lib0 web0 ''https://www.viega.com'' ''Viega'' since0)
      = [cand_edge, cand_undated]"
    unfolding scrape_website_news_def try_paths_candidates
    by (simp add: news_paths_def ends_trial_fixtures page_candidates_fixtures)
  moreover have "snd (scrape_website_news lib0 web0 ''https://www.viega.com'' ''Viega'' since0)
      = [''https://www.viega.com/news'', ''https://www.viega.com/press'']"
    unfolding scrape_website_news_def try_paths_fetched
    by (simp add: news_paths_def ends_trial_fixtures)
  ultimately show ?thesis by (simp add: prod_eq_iff)
qed

lemma scrape_unreachable:
  "scrape_website_news lib0 web0 ''https://www.uponor.com'' ''Uponor'' since0
     = ([], [''https://www.uponor.com/news'', ''https://www.uponor.com/press'',
             ''https://www.uponor.com/press-releases'', ''https://www.uponor.com/media'',
             ''https://www.uponor.com/newsroom'', ''https://www.uponor.com/media-center''])"
  "scrape_website_news lib0 web0 ''https://www.georgfischer.com'' ''Uponor'' since0
     = ([], [''https://www.georgfischer.com/news'', ''https://www.georgfischer.com/press'',
             ''https://www.georgfischer.com/press-releases'', ''https://www.georgfischer.com/media'',
             ''https://www.georgfischer.com/newsroom'', ''https://www.georgfischer.com/media-center''])"
  by (simp_all add: scrape_website_news_def news_paths_def web0_def)

lemma scrape_down:
  "scrape_website_news L web_down site name since_date = ([], map ((@) site) news_paths)"
  by (simp add: scrape_website_news_def news_paths_def web_down_def)

lemma window_fixture:
  "get_last_run_timestamp lib0 63929390400000000 63929390400000000
     (Content ''2026-10-28T12:00:00'') = Inr since0"
proof -
  have "strip ''2026-10-28T12:00:00'' = ''2026-10-28T12:00:00''"
    by (simp add: strip_def is_space_def)
  then have "fromisoformat lib0 (strip ''2026-10-28T12:00:00'') = Some since0"
    by (simp add: lib0_def since0_def)
  from naive_marker [OF this, of 63929390400000000 63929390400000000]
  show ?thesis by (simp add: since0_def naive_def days_def)
qed

lemma collect_fixture_raises:
  "collect_announcements lib0 web0 api0 since0 []
     = (Inl ValueError,
        map Fetched
          [''https://www.uponor.com/news'', ''https://www.uponor.com/press'',
           ''https://www.uponor.com/press-releases'', ''https://www.uponor.com/media'',
           ''https://www.uponor.com/newsroom'', ''https://www.uponor.com/media-center'',
           ''https://www.georgfischer.com/news'', ''https://www.georgfischer.com/press'',
           ''https://www.georgfischer.com/press-releases'', ''https://www.georgfischer.com/media'',
           ''https://www.georgfischer.com/newsroom'', ''https://www.georgfischer.com/media-center'',
           ''https://www.viega.com/news'', ''https://www.viega.com/press''])"
  by (simp add: collect_announcements_def self_companies_def scrape_unreachable scrape_fixture
      prompt_raises analyze_with_openai_def)

lemma collect_fixture_down:
  "collect_announcements L web_down api since_date []
     = (Inr [],
        map Fetched
          [''https://www.uponor.com/news'', ''https://www.uponor.com/press'',
           ''https://www.uponor.com/press-releases'', ''https://www.uponor.com/media'',
           ''https://www.uponor.com/newsroom'', ''https://www.uponor.com/media-center'',
           ''https://www.georgfischer.com/news'', ''https://www.georgfischer.com/press'',
           ''https://www.georgfischer.com/press-releases'', ''https://www.georgfischer.com/media'',
           ''https://www.georgfischer.com/newsroom'', ''https://www.georgfischer.com/media-center'',
           ''https://www.viega.com/news'', ''https://www.viega.com/press'',
           ''https://www.viega.com/press-releases'', ''https://www.viega.com/media'',
           ''https://www.viega.com/newsroom'', ''https://www.viega.com/media-center''])"
  by (simp add: collect_announcements_def self_companies_def scrape_down news_paths_def)

lemma run_fixture_raises:
  "fst (run lib0 web0 api0 clock0 files0) = Inl ValueError
   \<and> marker (snd (run lib0 web0 api0 clock0 files0)) = Content ''2026-10-28T12:00:00''
   \<and> history (snd (run lib0 web0 api0 clock0 files0))
       = map Fetched
          [''https://www.uponor.com/news'', ''https://www.uponor.com/press'',
           ''https://www.uponor.com/press-releases'', ''https://www.uponor.com/media'',
           ''https://www.uponor.com/newsroom'', ''https://www.uponor.com/media-center'',
           ''https://www.georgfischer.com/news'', ''https://www.georgfischer.com/press'',
           ''https://www.georgfischer.com/press-releases'', ''https://www.georgfischer.com/media'',
           ''https://www.georgfischer.com/newsroom'', ''https://www.georgfischer.com/media-center'',
           ''https://www.viega.com/news'', ''https://www.viega.com/press'']"
proof -
  have "marker files0 = Content ''2026-10-28T12:00:00''" "history files0 = []"
    by (simp_all add: files0_def)
  then show ?thesis
    by (simp add: run_def clock0_def window_fixture collect_fixture_raises)
qed

lemma run_fixture_completes:
  assumes "marker fs = Content ''2026-10-28T12:00:00''" and "history fs = []"
  shows "fst (run lib0 web_down api0 clock0 fs) = Inr ()"
    and "snd (run lib0 web_down api0 clock0 fs)
       = update_timestamp ''2026-11-04T12:00:00''
           (save_report ''2026-11-04'' empty_report
              (fs\<lparr>history := snd (collect_announcements lib0 web_down api0 since0 [])\<rparr>))"
proof -
  have iso: "isoformat lib0 (naive 63929390400000000) = ''2026-11-04T12:00:00''"
    by (simp add: lib0_def)
  from assms iso show "fst (run lib0 web_down api0 clock0 fs) = Inr ()"
    by (simp add: run_def clock0_def window_fixture collect_fixture_down Let_def)
  from assms iso show "snd (run lib0 web_down api0 clock0 fs)
       = update_timestamp ''2026-11-04T12:00:00''
           (save_report ''2026-11-04'' empty_report
              (fs\<lparr>history := snd (collect_announcements lib0 web_down api0 since0 [])\<rparr>))"
    by (simp add: run_def clock0_def window_fixture collect_fixture_down Let_def
        generate_report_empty)
qed

text \<open>
  A run in which the site of Viega gives two candidates raises at the first of them,
  after fourteen fetches, and leaves the marker at 2026-10-28T12:00:00. A run in which
  no site gives a page completes: after eighteen fetches it writes the report, then
  the marker, which holds 2026-11-04T12:00:00.
\<close>

theorem C2_window_advance_witness:
  "fst (run lib0 web0 api0 clock0 files0) = Inl ValueError
   \<and> marker (snd (run lib0 web0 api0 clock0 files0)) = Content ''2026-10-28T12:00:00''
   \<and> history (snd (run lib0 web0 api0 clock0 files0))
       = map Fetched
          [''https://www.uponor.com/news'', ''https://www.uponor.com/press'',
           ''https://www.uponor.com/press-releases'', ''https://www.uponor.com/media'',
           ''https://www.uponor.com/newsroom'', ''https://www.uponor.com/media-center'',
           ''https://www.georgfischer.com/news'', ''https://www.georgfischer.com/press'',
           ''https://www.georgfischer.com/press-releases'', ''https://www.georgfischer.com/media'',
           ''https://www.georgfischer.com/newsroom'', ''https://www.georgfischer.com/media-center'',
           ''https://www.viega.com/news'', ''https://www.viega.com/press'']
   \<and> fst (run lib0 web_down api0 clock0 files0) = Inr ()
   \<and> drop 18 (history (snd (run lib0 web_down api0 clock0 files0)))
       = [ReportWrite ''reports/competitor_report_2026-11-04.md'' empty_report,
          MarkerWrite ''2026-11-04T12:00:00'']
   \<and> marker (snd (run lib0 web_down api0 clock0 files0)) = Content ''2026-11-04T12:00:00''"
proof -
  have f: "marker files0 = Content ''2026-10-28T12:00:00''" "history files0 = []"
    "marker_write files0 = Written"
    by (simp_all add: files0_def)
  have a: "fst (run lib0 web0 api0 clock0 files0) = Inl ValueError"
    by (simp add: run_fixture_raises)
  have b: "fst (run lib0 web_down api0 clock0 files0) = Inr ()"
    by (rule run_fixture_completes) (simp_all add: f)
  have c: "isoformat lib0 (naive (now_advance clock0)) = ''2026-11-04T12:00:00''"
    by (simp add: lib0_def clock0_def)
  have h: "drop 18 (history (snd (run lib0 web_down api0 clock0 files0)))
       = [ReportWrite ''reports/competitor_report_2026-11-04.md'' empty_report,
          MarkerWrite ''2026-11-04T12:00:00'']"
    by (simp add: run_fixture_completes f collect_fixture_down update_timestamp_fields
        save_report_fields)
  from C2_window_advance [of lib0 web0 api0 clock0 files0 ValueError]
       C2_window_advance [of lib0 web_down api0 clock0 files0] a b c f h
  show ?thesis by (simp add: run_fixture_raises)
qed

text \<open>
  Claim C2 as it is written fails. When the marker file cannot be opened, a run
  completes without raising and the marker is not advanced. When the write fails after
  the file was opened, a run completes and the marker is left empty. When the report
  file cannot be written, a run completes, no report is kept, and the marker is
  advanced all the same.
\<close>

theorem C2_unwritable_files_counterexample:
  "fst (run lib0 web_down api0 clock0 (files0\<lparr>marker_write := OpenRaises\<rparr>)) = Inr ()
   \<and> marker (snd (run lib0 web_down api0 clock0 (files0\<lparr>marker_write := OpenRaises\<rparr>)))
       = Content ''2026-10-28T12:00:00''
   \<and> fst (run lib0 web_down api0 clock0 (files0\<lparr>marker_write := WriteRaises 0\<rparr>)) = Inr ()
   \<and> marker (snd (run lib0 web_down api0 clock0 (files0\<lparr>marker_write := WriteRaises 0\<rparr>)))
       = Content []
   \<and> fst (run lib0 web_down api0 clock0 (files0\<lparr>reports_write := OpenRaises\<rparr>)) = Inr ()
   \<and> reports (snd (run lib0 web_down api0 clock0 (files0\<lparr>reports_write := OpenRaises\<rparr>)))
         ''reports/competitor_report_2026-11-04.md'' = None
   \<and> marker (snd (run lib0 web_down api0 clock0 (files0\<lparr>reports_write := OpenRaises\<rparr>)))
       = Content ''2026-11-04T12:00:00''"
  by (simp add: run_fixture_completes files0_def update_timestamp_def save_report_def Let_def)

end
